theory Spec2Isabelle
  imports Complex_Main "HOL-Library.Signed_Division"
begin

section \<open>Button specification of the floating window\<close>

text \<open>
  The floating window (class \<open>LevitationWindow\<close> of
  \<^verbatim>\<open>app/view/floating_window/levitation.py\<close>) shows up to four quick-action
  buttons. The buttons are named by strings; the configuration value
  \<open>floating_window_button_control\<close> selects one row of a fixed table.
\<close>

subsection \<open>Python list indexing\<close>

datatype py_error = IndexError | UnboundLocalError

text \<open>
  \<open>xs[i]\<close> in Python: a negative index counts from the end, an index outside
  the list raises \<open>IndexError\<close>.
\<close>

definition py_index :: "'a list \<Rightarrow> int \<Rightarrow> py_error + 'a" where
  "py_index xs i =
     (if 0 \<le> i \<and> i < int (length xs) then Inr (xs ! nat i)
      else if i < 0 \<and> - int (length xs) \<le> i then Inr (xs ! nat (int (length xs) + i))
      else Inl IndexError)"

subsection \<open>\<open>_map_button_control\<close>\<close>

definition combos :: "string list list" where
  "combos =
    [ [''roll_call''],
      [''quick_draw''],
      [''instant_draw''],
      [''custom_draw''],
      [''lottery''],
      [''roll_call'', ''quick_draw''],
      [''roll_call'', ''custom_draw''],
      [''roll_call'', ''lottery''],
      [''quick_draw'', ''custom_draw''],
      [''quick_draw'', ''lottery''],
      [''custom_draw'', ''lottery''],
      [''roll_call'', ''quick_draw'', ''custom_draw''],
      [''roll_call'', ''quick_draw'', ''lottery''],
      [''roll_call'', ''custom_draw'', ''lottery''],
      [''quick_draw'', ''custom_draw'', ''lottery''],
      [''roll_call'', ''quick_draw'', ''custom_draw'', ''lottery''] ]"

definition map_button_control :: "int \<Rightarrow> py_error + string list" where
  "map_button_control idx =
     (if idx < 0 \<or> idx \<ge> int (length combos) then py_index combos 0
      else py_index combos idx)"

subsection \<open>\<open>_add_button\<close> and the loop of \<open>_build_ui\<close>\<close>

text \<open>
  \<open>_add_button\<close> puts a button into one of three layouts: the layout of the
  container itself (placements 1 and 2), or the top or the bottom row.
\<close>

datatype row = Container | Top | Bottom

definition add_button :: "int \<Rightarrow> int \<Rightarrow> int \<Rightarrow> row" where
  "add_button placement index tot =
     (if placement = 1 then Container
      else if placement = 2 then Container
      else (let split = (tot + 1) div 2
            in if index < split then Top else Bottom))"

text \<open>
  \<open>for i, spec in enumerate(self._buttons_spec): self._add_button(btn, i, len(self._buttons_spec))\<close>:
  the buttons that end up in one row, in the order they were added.
\<close>

definition buttons_in :: "row \<Rightarrow> int \<Rightarrow> 'a list \<Rightarrow> 'a list" where
  "buttons_in r placement specs =
     map snd (filter (\<lambda>(i, spec). add_button placement (int i) (int (length specs)) = r)
                     (enumerate 0 specs))"

section \<open>Geometry\<close>

text \<open>
  A \<open>QRect\<close> with integer coordinates: its right and bottom edges are the last
  pixels inside, \<open>left + width - 1\<close> and \<open>top + height - 1\<close>.
\<close>

record qrect =
  rx :: int
  ry :: int
  rw :: int
  rh :: int

definition r_left :: "qrect \<Rightarrow> int" where
  "r_left r = rx r"

definition r_top :: "qrect \<Rightarrow> int" where
  "r_top r = ry r"

definition r_right :: "qrect \<Rightarrow> int" where
  "r_right r = rx r + rw r - 1"

definition r_bottom :: "qrect \<Rightarrow> int" where
  "r_bottom r = ry r + rh r - 1"

text \<open>
  \<open>_clamp_to_screen(x, y)\<close>, with the available geometry \<open>geo\<close> of the screen the
  code has picked and the width and height of the window as parameters.
\<close>

definition clamp_to_screen :: "qrect \<Rightarrow> int \<Rightarrow> int \<Rightarrow> int \<Rightarrow> int \<Rightarrow> int \<times> int" where
  "clamp_to_screen geo width height x y =
     (let cx = max (r_left geo) (min x (r_right geo - width + 1));
          cy = max (r_top geo) (min y (r_bottom geo - height + 1))
      in (cx, cy))"

text \<open>The panel rectangle \<open>[cx, cx+w-1] x [cy, cy+h-1]\<close> lies inside \<open>D\<close>.\<close>

definition panel_inside :: "qrect \<Rightarrow> int \<Rightarrow> int \<Rightarrow> int \<times> int \<Rightarrow> bool" where
  "panel_inside D w h p =
     (r_left D \<le> fst p \<and> fst p + w - 1 \<le> r_right D \<and> r_top D \<le> snd p \<and> snd p + h - 1 \<le> r_bottom D)"

text \<open>
  \<open>QRect.center()\<close> halves the sums of the opposite edges with the division of
  C++, which rounds towards zero; \<open>QRect.contains(p)\<close> includes the edges.
\<close>

definition center :: "qrect \<Rightarrow> int \<times> int" where
  "center r = ((r_left r + r_right r) sdiv 2, (r_top r + r_bottom r) sdiv 2)"

definition contains :: "qrect \<Rightarrow> int \<times> int \<Rightarrow> bool" where
  "contains r p =
     (r_left r \<le> fst p \<and> fst p \<le> r_right r \<and> r_top r \<le> snd p \<and> snd p \<le> r_bottom r)"

text \<open>
  The screens of the desktop, the primary one and the others. Each has its full
  geometry, which \<open>QGuiApplication.screenAt\<close> searches, and its available
  geometry. \<open>size_hint\<close> stands for the layout engine of Qt: the size that
  \<open>adjustSize()\<close> gives the window for a placement, a display style and a
  number of buttons.
\<close>

record screen =
  full_geometry :: qrect
  available_geometry :: qrect

record desktop =
  primary_screen :: screen
  other_screens :: "screen list"
  size_hint :: "int \<Rightarrow> int \<Rightarrow> nat \<Rightarrow> int \<times> int"

text \<open>
  \<open>QGuiApplication.screenAt(p) or QApplication.primaryScreen()\<close>, followed by
  \<open>availableGeometry()\<close>.
\<close>

definition available_at :: "desktop \<Rightarrow> int \<times> int \<Rightarrow> qrect" where
  "available_at env p =
     (case find (\<lambda>scr. contains (full_geometry scr) p) (primary_screen env # other_screens env) of
        Some scr \<Rightarrow> available_geometry scr
      | None \<Rightarrow> available_geometry (primary_screen env))"

section \<open>The state of the floating window\<close>

subsection \<open>Timers, animations and events\<close>

text \<open>
  The methods that the code connects to the \<open>timeout\<close> signal of a timer or
  hands to \<open>QTimer.singleShot\<close>.
\<close>

datatype slot = BeginDrag | AutoHideWindow | CheckEdgeProximity

text \<open>
  A \<open>QTimer\<close>: whether it runs, its interval in milliseconds, whether it is
  single-shot, and the slots connected to its \<open>timeout\<close> signal.
\<close>

record qtimer =
  t_active :: bool
  t_interval :: int
  t_single_shot :: bool
  t_slots :: "slot list"

definition new_timer :: qtimer where
  "new_timer = \<lparr>t_active = False, t_interval = 0, t_single_shot = False, t_slots = []\<rparr>"

definition timer_start :: "int \<Rightarrow> qtimer \<Rightarrow> qtimer" where
  "timer_start msec t = t\<lparr>t_active := True, t_interval := msec\<rparr>"

definition timer_stop :: "qtimer \<Rightarrow> qtimer" where
  "timer_stop t = t\<lparr>t_active := False\<rparr>"

text \<open>A timer that times out stops first when it is single-shot.\<close>

definition timer_expire :: "qtimer \<Rightarrow> qtimer" where
  "timer_expire t = (if t_single_shot t then timer_stop t else t)"

datatype direction = DirLeft | DirRight

text \<open>
  The closures that the code connects to the \<open>finished\<close> signal of an
  animation, with the values they capture: \<open>on_animation_finished\<close> of
  \<open>_check_edge_proximity\<close> (the direction of the indicator, its x coordinate,
  \<open>window_pos.y()\<close> and \<open>window_height\<close>), and \<open>on_main_animation_finished\<close>
  of \<open>_expand_window\<close>. These are the closures connected to an animation that
  the window keeps in its attribute \<open>animation\<close>.
\<close>

datatype callback =
    OnAnimationFinished direction int int int
  | OnMainAnimationFinished

text \<open>
  A \<open>QPropertyAnimation\<close> of a geometry. Only its end is modelled: while it
  runs the geometry of its target keeps the value it had, and when it finishes the
  target has the end value and the callbacks run. An animation that is stopped
  never finishes. This is the life of an animation that an attribute of the
  window refers to. An animation that only a local variable of a method refers to
  has no parent, and is destroyed when the method returns: its target keeps the
  start value, which is the geometry it had, and the \<open>finished\<close> signal is never
  emitted.
\<close>

record animation_rec =
  a_start :: qrect
  a_end :: qrect
  a_running :: bool
  a_finished :: "callback list"

datatype mouse_button = LeftButton | RightButton | MiddleButton

text \<open>
  The events that reach the window. A position is a pair of integers; a
  setting value is an integer, with \<open>False\<close> and \<open>None\<close> as 0 and \<open>True\<close> as 1
  (the code reads it with \<open>bool(value)\<close> or \<open>int(value or default)\<close> only).
\<close>

datatype event =
    MousePress mouse_button "int \<times> int"
  | MouseMove bool "int \<times> int"
  | MouseRelease mouse_button
  | FilterPress mouse_button "int \<times> int"
  | FilterMove bool "int \<times> int"
  | FilterRelease mouse_button
  | MouseDoubleClick "int \<times> int"
  | Enter
  | Leave
  | DragTimerTimeout
  | RetractTimerTimeout
  | AutoHideTimerTimeout
  | SingleShotTimeout slot
  | AnimationFinished
  | StoragePress mouse_button "int \<times> int"
  | StorageMove bool "int \<times> int"
  | StorageRelease mouse_button
  | ArrowClicked
  | ArrowMoved int
  | SettingChanged string string int

subsection \<open>The fields of \<open>LevitationWindow\<close>\<close>

text \<open>
  The fields carry the names of the attributes of the class, without the leading
  underscore. An attribute that the code tests with \<open>hasattr\<close> or against
  \<open>None\<close> is an option. The window is frameless, so its frame geometry is its
  geometry. Beside the attributes the state holds what the window leaves in its
  surroundings: the pending \<open>QTimer.singleShot\<close> calls (with their delay) and the
  timers that lost their attribute while running, the calls of
  \<open>update_settings\<close>, the emissions of \<open>positionChanged\<close>, and the exceptions
  raised in a callback.
\<close>

record levitation_window =
  geometry :: qrect
  drag_timer :: qtimer
  dragging :: bool
  press_pos :: "int \<times> int"
  indicator :: "(int \<times> int) option"
  retract_timer :: qtimer
  retracted :: bool
  last_stuck :: bool
  edge_threshold :: int
  placement :: int
  display_style :: int
  stick_to_edge :: bool
  retract_seconds :: int
  long_press_ms :: int
  buttons_spec :: "string list"
  draggable :: bool
  stick_indicator_style :: int
  floating_window_stick_to_edge :: bool
  custom_retract_time :: int
  custom_display_mode :: int
  original_position :: "(int \<times> int) option"
  animation :: "animation_rec option"
  storage_window :: "qrect option"
  storage_dragging :: bool
  storage_drag_start :: "int \<times> int"
  storage_direction :: "direction option"
  storage_initial_x :: int
  arrow_widget :: "qrect option"
  arrow_button :: "direction option"
  auto_hide_timer :: "qtimer option"
  pending :: "(int \<times> slot) list"
  settings_written :: "((string \<times> string) \<times> int) list"
  position_changed :: "(int \<times> int) list"
  raised :: "py_error list"

definition window_x :: "levitation_window \<Rightarrow> int" where
  "window_x s = rx (geometry s)"

definition window_y :: "levitation_window \<Rightarrow> int" where
  "window_y s = ry (geometry s)"

definition window_width :: "levitation_window \<Rightarrow> int" where
  "window_width s = rw (geometry s)"

definition window_height :: "levitation_window \<Rightarrow> int" where
  "window_height s = rh (geometry s)"

text \<open>\<open>self.move(x, y)\<close>\<close>

definition move :: "int \<Rightarrow> int \<Rightarrow> levitation_window \<Rightarrow> levitation_window" where
  "move x y s = s\<lparr>geometry := (geometry s)\<lparr>rx := x, ry := y\<rparr>\<rparr>"

text \<open>
  \<open>if hasattr(self, "animation") and self.animation.state() == QPropertyAnimation.Running:
  self.animation.stop()\<close>
\<close>

definition stop_animation :: "levitation_window \<Rightarrow> levitation_window" where
  "stop_animation s =
     (case animation s of
        None \<Rightarrow> s
      | Some a \<Rightarrow> if a_running a then s\<lparr>animation := Some (a\<lparr>a_running := False\<rparr>)\<rparr> else s)"

subsection \<open>Dragging the window\<close>

definition begin_drag :: "levitation_window \<Rightarrow> levitation_window" where
  "begin_drag s = s\<lparr>dragging := True\<rparr>"

definition cancel_retract :: "levitation_window \<Rightarrow> levitation_window" where
  "cancel_retract s =
     (if t_active (retract_timer s) then s\<lparr>retract_timer := timer_stop (retract_timer s)\<rparr>
      else s)"

definition schedule_retract :: "levitation_window \<Rightarrow> levitation_window" where
  "schedule_retract s =
     (if \<not> stick_to_edge s then s
      else if retract_seconds s \<noteq> 0 \<and> retract_seconds s > 0 then
        s\<lparr>retract_timer := timer_start (retract_seconds s * 1000) (timer_stop (retract_timer s))\<rparr>
      else s)"

definition clear_indicator :: "levitation_window \<Rightarrow> levitation_window" where
  "clear_indicator s = (case indicator s of None \<Rightarrow> s | Some w \<Rightarrow> s\<lparr>indicator := None\<rparr>)"

text \<open>
  \<open>_show_indicator\<close> makes a child widget of 16 by 16 pixels; the state keeps
  the place it is moved to.
\<close>

definition show_indicator :: "direction \<Rightarrow> levitation_window \<Rightarrow> levitation_window" where
  "show_indicator d s =
     (let s1 = clear_indicator s;
          w = (case d of
                 DirLeft \<Rightarrow> (- 8, window_height s1 div 2 - 8)
               | DirRight \<Rightarrow> (window_width s1 - 8, window_height s1 div 2 - 8))
      in s1\<lparr>indicator := Some w\<rparr>)"

definition save_position :: "levitation_window \<Rightarrow> levitation_window" where
  "save_position s =
     s\<lparr>settings_written := settings_written s @
          [((''float_position'', ''x''), window_x s), ((''float_position'', ''y''), window_y s)],
       position_changed := position_changed s @ [(window_x s, window_y s)]\<rparr>"

definition stick_to_nearest_edge :: "desktop \<Rightarrow> levitation_window \<Rightarrow> levitation_window" where
  "stick_to_nearest_edge env s =
     (if \<not> stick_to_edge s then s
      else
        let fg = geometry s;
            geo = available_at env (center fg);
            left = r_left fg - r_left geo;
            right = r_right geo - r_right fg;
            s1 = s\<lparr>last_stuck := False\<rparr>
        in if left \<le> edge_threshold s1 then
             (let s2 = move (r_left geo) (window_y s1) s1;
                  s3 = (if \<not> floating_window_stick_to_edge s2 then show_indicator DirLeft s2
                        else s2)
              in s3\<lparr>last_stuck := True\<rparr>)
           else if right \<le> edge_threshold s1 then
             (let s2 = move (r_right geo - window_width s1 + 1) (window_y s1) s1;
                  s3 = (if \<not> floating_window_stick_to_edge s2 then show_indicator DirRight s2
                        else s2)
              in s3\<lparr>last_stuck := True\<rparr>)
           else s1)"

definition mousePressEvent ::
  "mouse_button \<Rightarrow> int \<times> int \<Rightarrow> levitation_window \<Rightarrow> levitation_window" where
  "mousePressEvent b pos s =
     (if b = LeftButton \<and> draggable s then
        s\<lparr>press_pos := pos, dragging := False,
          drag_timer := timer_start (long_press_ms s) (timer_stop (drag_timer s))\<rparr>
      else s)"

text \<open>
  The body of \<open>mouseMoveEvent\<close> under its test of the left button, which
  \<open>eventFilter\<close> repeats for \<open>QEvent.MouseMove\<close>.
\<close>

definition pressed_move :: "int \<times> int \<Rightarrow> levitation_window \<Rightarrow> levitation_window" where
  "pressed_move cur s =
     (let s1 = (if \<not> dragging s then
                  (let delta0 = (fst cur - fst (press_pos s), snd cur - snd (press_pos s))
                   in if \<bar>fst delta0\<bar> \<ge> 3 \<or> \<bar>snd delta0\<bar> \<ge> 3 then begin_drag s else s)
                else s)
      in if dragging s1 then
           (let delta = (fst cur - fst (press_pos s1), snd cur - snd (press_pos s1));
                s2 = move (window_x s1 + fst delta) (window_y s1 + snd delta) s1;
                s3 = s2\<lparr>press_pos := cur\<rparr>
            in cancel_retract s3)
         else s1)"

definition mouseMoveEvent ::
  "bool \<Rightarrow> int \<times> int \<Rightarrow> levitation_window \<Rightarrow> levitation_window" where
  "mouseMoveEvent left_held cur s =
     (if left_held \<and> draggable s then pressed_move cur s else s)"

text \<open>
  The end of a drag, as \<open>mouseReleaseEvent\<close> and \<open>eventFilter\<close> both have it.
\<close>

definition drag_release :: "desktop \<Rightarrow> levitation_window \<Rightarrow> levitation_window" where
  "drag_release env s =
     (let s1 = s\<lparr>dragging := False\<rparr>;
          s2 = stick_to_nearest_edge env s1;
          s3 = (if last_stuck s2 then schedule_retract s2 else clear_indicator s2)
      in save_position s3)"

definition schedule_edge_check :: "levitation_window \<Rightarrow> levitation_window" where
  "schedule_edge_check s =
     (if floating_window_stick_to_edge s then
        s\<lparr>pending := pending s @ [(100, CheckEdgeProximity)]\<rparr>
      else s)"

definition mouseReleaseEvent ::
  "desktop \<Rightarrow> mouse_button \<Rightarrow> levitation_window \<Rightarrow> levitation_window" where
  "mouseReleaseEvent env b s =
     (if b = LeftButton then
        (let s1 = s\<lparr>drag_timer := timer_stop (drag_timer s)\<rparr>;
             s2 = (if draggable s1 \<and> dragging s1 then drag_release env s1 else s1)
         in schedule_edge_check s2)
      else s)"

definition filter_press ::
  "mouse_button \<Rightarrow> int \<times> int \<Rightarrow> levitation_window \<Rightarrow> levitation_window" where
  "filter_press b pos s =
     (if \<not> draggable s then s
      else if b = LeftButton then
        s\<lparr>press_pos := pos, dragging := False,
          drag_timer := timer_start (long_press_ms s) (timer_stop (drag_timer s))\<rparr>
      else s)"

definition filter_move ::
  "bool \<Rightarrow> int \<times> int \<Rightarrow> levitation_window \<Rightarrow> levitation_window" where
  "filter_move left_held cur s =
     (if \<not> draggable s then s
      else if left_held then pressed_move cur s
      else s)"

definition filter_release ::
  "desktop \<Rightarrow> mouse_button \<Rightarrow> levitation_window \<Rightarrow> levitation_window" where
  "filter_release env b s =
     (if \<not> draggable s then s
      else if b = LeftButton then
        (let s1 = s\<lparr>drag_timer := timer_stop (drag_timer s)\<rparr>
         in if dragging s1 then schedule_edge_check (drag_release env s1) else s1)
      else s)"

subsection \<open>The older retraction to the edge\<close>

definition retract_into_edge :: "desktop \<Rightarrow> levitation_window \<Rightarrow> levitation_window" where
  "retract_into_edge env s =
     (let fg = geometry s;
          geo = available_at env (center fg);
          handle = 16
      in if window_x s \<le> r_left geo then
           (let s1 = move (r_left geo - window_width s + handle) (window_y s) s;
                s2 = s1\<lparr>retracted := True\<rparr>
            in if \<not> floating_window_stick_to_edge s2 then show_indicator DirRight s2 else s2)
         else if window_x s + window_width s \<ge> r_right geo then
           (let s1 = move (r_right geo - handle + 1) (window_y s) s;
                s2 = s1\<lparr>retracted := True\<rparr>
            in if \<not> floating_window_stick_to_edge s2 then show_indicator DirLeft s2 else s2)
         else s)"

definition expand_from_edge :: "desktop \<Rightarrow> levitation_window \<Rightarrow> levitation_window" where
  "expand_from_edge env s =
     (let fg = geometry s;
          geo = available_at env (center fg);
          s1 = (if window_x s < r_left geo then move (r_left geo) (window_y s) s
                else if window_x s + window_width s > r_right geo then
                  move (r_right geo - window_width s + 1) (window_y s) s
                else s)
      in clear_indicator (s1\<lparr>retracted := False\<rparr>))"

subsection \<open>Hiding at the edge and the two indicators\<close>

definition delete_storage_window :: "levitation_window \<Rightarrow> levitation_window" where
  "delete_storage_window s =
     (case storage_window s of None \<Rightarrow> s | Some w \<Rightarrow> s\<lparr>storage_window := None\<rparr>)"

definition create_storage_window ::
  "direction \<Rightarrow> int \<Rightarrow> int \<Rightarrow> levitation_window \<Rightarrow> levitation_window" where
  "create_storage_window d x y s =
     (let s1 = delete_storage_window s
      in s1\<lparr>storage_window := Some \<lparr>rx = x, ry = y, rw = 30, rh = 30\<rparr>,
            storage_dragging := False,
            storage_drag_start := (0, 0),
            storage_direction := Some d,
            storage_initial_x := x\<rparr>)"

definition delete_arrow_button :: "levitation_window \<Rightarrow> levitation_window" where
  "delete_arrow_button s = s\<lparr>arrow_widget := None, arrow_button := None\<rparr>"

text \<open>
  The arrow button keeps the direction it was made for: its \<open>clicked\<close> signal
  calls \<open>_show_hidden_window(direction)\<close>.
\<close>

definition create_arrow_button ::
  "direction \<Rightarrow> int \<Rightarrow> int \<Rightarrow> levitation_window \<Rightarrow> levitation_window" where
  "create_arrow_button d x y s =
     (let s1 = (if arrow_button s \<noteq> None then delete_arrow_button s else s)
      in s1\<lparr>arrow_widget := Some \<lparr>rx = x, ry = y, rw = 30, rh = 30\<rparr>,
            arrow_button := Some d\<rparr>)"

definition on_animation_finished ::
  "direction \<Rightarrow> int \<Rightarrow> int \<Rightarrow> int \<Rightarrow> levitation_window \<Rightarrow> levitation_window" where
  "on_animation_finished d x pos_y height s =
     (let s1 = (if stick_indicator_style s = 0 then
                  create_storage_window d x (pos_y + height div 2 - 30) s
                else create_arrow_button d x (pos_y + height div 2 - 15) s)
      in s1\<lparr>retracted := True\<rparr>)"

definition check_edge_proximity :: "desktop \<Rightarrow> levitation_window \<Rightarrow> levitation_window" where
  "check_edge_proximity env s =
     (let s1 = stop_animation s;
          s2 = clear_indicator s1
      in if \<not> floating_window_stick_to_edge s2 then s2
         else
           let screen = available_geometry (primary_screen env);
               window_pos = (window_x s2, window_y s2);
               width = window_width s2;
               height = window_height s2;
               edge = 5;
               hidden_width = 10
           in if fst window_pos \<le> edge then
                (let s3 = (if original_position s2 = None then
                             s2\<lparr>original_position := Some window_pos\<rparr>
                           else s2)
                 in s3\<lparr>animation := Some
                      \<lparr>a_start = geometry s3,
                       a_end = \<lparr>rx = - width + hidden_width, ry = snd window_pos,
                                rw = width, rh = height\<rparr>,
                       a_running = True,
                       a_finished = [OnAnimationFinished DirRight 0 (snd window_pos) height]\<rparr>\<rparr>)
              else if fst window_pos + width \<ge> rw screen - edge then
                (let s3 = (if original_position s2 = None then
                             s2\<lparr>original_position := Some window_pos\<rparr>
                           else s2)
                 in s3\<lparr>animation := Some
                      \<lparr>a_start = geometry s3,
                       a_end = \<lparr>rx = rw screen - hidden_width, ry = snd window_pos,
                                rw = width, rh = height\<rparr>,
                       a_running = True,
                       a_finished =
                         [OnAnimationFinished DirLeft (rw screen - 30) (snd window_pos) height]\<rparr>\<rparr>)
              else
                (let s3 = (if fst window_pos > edge \<and> fst window_pos + width < rw screen - edge
                           then
                             (let s4 = (if \<not> retracted s2 then save_position s2 else s2)
                              in s4\<lparr>original_position := None\<rparr>)
                           else s2)
                 in s3\<lparr>retracted := False\<rparr>))"

definition auto_hide_window :: "desktop \<Rightarrow> levitation_window \<Rightarrow> levitation_window" where
  "auto_hide_window env s =
     (if floating_window_stick_to_edge s then
        (let s1 = (case auto_hide_timer s of
                     None \<Rightarrow> s
                   | Some t \<Rightarrow>
                       if t_active t then s\<lparr>auto_hide_timer := Some (timer_stop t)\<rparr> else s)
         in check_edge_proximity env s1)
      else s)"

text \<open>
  A fresh single-shot timer connected to \<open>_auto_hide_window\<close> and started for
  \<open>custom_retract_time\<close> seconds.
\<close>

definition fresh_auto_hide_timer :: "levitation_window \<Rightarrow> qtimer" where
  "fresh_auto_hide_timer s =
     timer_start (custom_retract_time s * 1000)
       (new_timer\<lparr>t_single_shot := True, t_slots := [AutoHideWindow]\<rparr>)"

definition enterEvent :: "levitation_window \<Rightarrow> levitation_window" where
  "enterEvent s =
     (case auto_hide_timer s of None \<Rightarrow> s | Some t \<Rightarrow> s\<lparr>auto_hide_timer := None\<rparr>)"

definition leaveEvent :: "levitation_window \<Rightarrow> levitation_window" where
  "leaveEvent s =
     (let s1 = (if retracted s then schedule_retract s else s)
      in if floating_window_stick_to_edge s1 \<and> \<not> retracted s1 then
           s1\<lparr>auto_hide_timer := Some (fresh_auto_hide_timer s1)\<rparr>
         else s1)"

subsection \<open>Expanding from the storage window\<close>

text \<open>
  \<open>_expand_window\<close> builds the exit animation of the storage window in the
  local variable \<open>storage_animation\<close>, stops the animation of the attribute
  \<open>animation\<close> when it runs, connects the closure
  \<open>on_storage_animation_finished\<close> to the exit animation and starts it. Nothing
  but the local variable refers to the exit animation, so it is gone when the
  method returns: the storage window stays where it is and the closure is never
  called. What is left of the call is that the animation of the window has been
  stopped.
\<close>

definition expand_window :: "desktop \<Rightarrow> levitation_window \<Rightarrow> levitation_window" where
  "expand_window env s =
     (case storage_window s of
        None \<Rightarrow> s
      | Some sw \<Rightarrow> stop_animation s)"

text \<open>
  The two closures of \<open>_expand_window\<close>, as the method defines them. No event
  calls \<open>on_storage_animation_finished\<close>, and \<open>on_main_animation_finished\<close> is
  connected nowhere else, so neither is part of a run of the window.

  When the old timer of the attribute \<open>_auto_hide_timer\<close> still runs, replacing
  the attribute does not stop it: it is a child of the window and times out later.
\<close>

definition on_main_animation_finished :: "levitation_window \<Rightarrow> levitation_window" where
  "on_main_animation_finished s =
     (let s1 = s\<lparr>retracted := False\<rparr>;
          left_running =
            (case auto_hide_timer s1 of
               None \<Rightarrow> []
             | Some t \<Rightarrow> if t_active t then map (\<lambda>sl. (t_interval t, sl)) (t_slots t) else [])
      in s1\<lparr>pending := pending s1 @ left_running,
            auto_hide_timer := Some (fresh_auto_hide_timer s1)\<rparr>)"

text \<open>
  Without a saved original position the closure binds \<open>target_x\<close> only when the
  window reaches beyond the left or the right edge of the screen; otherwise
  reading \<open>target_x\<close> raises \<open>UnboundLocalError\<close>, after the attribute
  \<open>animation\<close> has been replaced by an animation that is never started.
\<close>

definition on_storage_animation_finished ::
  "qrect \<Rightarrow> int \<Rightarrow> int \<Rightarrow> levitation_window \<Rightarrow> levitation_window" where
  "on_storage_animation_finished screen width height s =
     (let s1 = delete_storage_window s;
          target =
            (case original_position s1 of
               Some p \<Rightarrow> Inr p
             | None \<Rightarrow>
                 if window_x s1 < r_left screen then Inr (r_left screen, window_y s1)
                 else if window_x s1 + width > r_right screen then
                   Inr (r_right screen - width + 1, window_y s1)
                 else Inl UnboundLocalError)
      in case target of
           Inl e \<Rightarrow>
             s1\<lparr>animation := Some \<lparr>a_start = geometry s1, a_end = geometry s1,
                                   a_running = False, a_finished = []\<rparr>,
                raised := raised s1 @ [e]\<rparr>
         | Inr (target_x, target_y) \<Rightarrow>
             s1\<lparr>animation := Some
                  \<lparr>a_start = geometry s1,
                   a_end = \<lparr>rx = target_x, ry = target_y, rw = width, rh = height\<rparr>,
                   a_running = True,
                   a_finished = [OnMainAnimationFinished]\<rparr>\<rparr>)"

definition run_callback :: "callback \<Rightarrow> levitation_window \<Rightarrow> levitation_window" where
  "run_callback cb s =
     (case cb of
        OnAnimationFinished d x pos_y height \<Rightarrow> on_animation_finished d x pos_y height s
      | OnMainAnimationFinished \<Rightarrow> on_main_animation_finished s)"

text \<open>
  \<open>_smart_snap_to_edge\<close> computes the height the storage window snaps to.
  When it differs from the height of the window, the method builds an animation to
  \<open>(_storage_initial_x, target_y)\<close> in the local variable \<open>snap_animation\<close>,
  starts it and assigns \<open>_storage_initial_x\<close> to itself. The animation is gone
  when the method returns, so the storage window stays where it was released.
\<close>

definition smart_snap_to_edge :: "desktop \<Rightarrow> levitation_window \<Rightarrow> levitation_window" where
  "smart_snap_to_edge env s =
     (case storage_window s of
        None \<Rightarrow> s
      | Some sw \<Rightarrow>
          let screen = available_geometry (primary_screen env);
              snap_threshold = 50;
              target_y =
                (if ry sw < r_top screen + snap_threshold then r_top screen + 10
                 else if ry sw + rh sw > r_bottom screen - snap_threshold then
                   r_bottom screen - rh sw - 10
                 else
                   (let screen_center_y = snd (center screen)
                    in if \<bar>ry sw + rh sw div 2 - screen_center_y\<bar> < snap_threshold then
                         screen_center_y - rh sw div 2
                       else ry sw))
          in if target_y \<noteq> ry sw then s\<lparr>storage_initial_x := storage_initial_x s\<rparr>
             else s)"

definition on_storage_press ::
  "mouse_button \<Rightarrow> int \<times> int \<Rightarrow> levitation_window \<Rightarrow> levitation_window" where
  "on_storage_press b pos s =
     (if b = LeftButton then s\<lparr>storage_drag_start := pos, storage_dragging := False\<rparr>
      else s)"

definition on_storage_move ::
  "desktop \<Rightarrow> bool \<Rightarrow> int \<times> int \<Rightarrow> levitation_window \<Rightarrow> levitation_window" where
  "on_storage_move env left_held pos s =
     (if left_held then
        (let delta = (fst pos - fst (storage_drag_start s), snd pos - snd (storage_drag_start s));
             s1 = (if \<not> storage_dragging s then
                     (if \<bar>snd delta\<bar> > 3 then s\<lparr>storage_dragging := True\<rparr> else s)
                   else s)
         in if storage_dragging s1 then
              (case storage_window s1 of
                 None \<Rightarrow> s1
               | Some sw \<Rightarrow>
                   let screen = available_geometry (primary_screen env);
                       new_y = max (r_top screen) (min (ry sw + snd delta) (r_bottom screen - rh sw))
                   in s1\<lparr>storage_window := Some (sw\<lparr>rx := storage_initial_x s1, ry := new_y\<rparr>)\<rparr>)
            else s1)
      else s)"

definition on_storage_release ::
  "desktop \<Rightarrow> mouse_button \<Rightarrow> levitation_window \<Rightarrow> levitation_window" where
  "on_storage_release env b s =
     (if b = LeftButton then
        (let s1 = (if storage_dragging s then smart_snap_to_edge env s else expand_window env s)
         in s1\<lparr>storage_dragging := False\<rparr>)
      else if b = RightButton then
        (if \<not> storage_dragging s then expand_window env s else s)
      else s)"

definition mouseDoubleClickEvent ::
  "desktop \<Rightarrow> int \<times> int \<Rightarrow> levitation_window \<Rightarrow> levitation_window" where
  "mouseDoubleClickEvent env mouse_pos s =
     (case storage_window s of
        None \<Rightarrow> s
      | Some sw \<Rightarrow> if contains sw mouse_pos then expand_window env s else s)"

subsection \<open>Expanding from the arrow button\<close>

definition show_hidden_window ::
  "desktop \<Rightarrow> direction \<Rightarrow> levitation_window \<Rightarrow> levitation_window" where
  "show_hidden_window env d s =
     (let s1 = stop_animation s;
          screen = available_geometry (primary_screen env);
          width = window_width s1;
          height = window_height s1;
          arrow = (case arrow_widget s1 of
                     Some aw \<Rightarrow> (ry aw, rh aw)
                   | None \<Rightarrow> (window_y s1, 30));
          y0 = fst arrow + snd arrow div 2 - height div 2;
          y1 = (if y0 < r_top screen then r_top screen
                else if y0 + height > r_bottom screen then r_bottom screen - height
                else y0);
          end_rect = (case d of
                        DirRight \<Rightarrow> \<lparr>rx = r_left screen, ry = y1, rw = width, rh = height\<rparr>
                      | DirLeft \<Rightarrow>
                          \<lparr>rx = r_right screen - width + 1, ry = y1, rw = width, rh = height\<rparr>);
          s2 = s1\<lparr>animation := Some \<lparr>a_start = geometry s1, a_end = end_rect,
                                      a_running = True, a_finished = []\<rparr>\<rparr>;
          s3 = delete_arrow_button s2
      in s3\<lparr>pending := pending s3 @ [(custom_retract_time s3 * 1000, AutoHideWindow)]\<rparr>)"

subsection \<open>Changes of the settings\<close>

text \<open>\<open>int(value or default)\<close> for an integer value.\<close>

definition value_or :: "int \<Rightarrow> int \<Rightarrow> int" where
  "value_or v d = (if v = 0 then d else v)"

text \<open>
  \<open>rebuild_ui\<close> makes the buttons anew and lets Qt adjust the size of the
  window.
\<close>

definition rebuild_ui :: "desktop \<Rightarrow> levitation_window \<Rightarrow> levitation_window" where
  "rebuild_ui env s =
     (let sz = size_hint env (placement s) (display_style s) (length (buttons_spec s))
      in s\<lparr>geometry := (geometry s)\<lparr>rw := fst sz, rh := snd sz\<rparr>\<rparr>)"

definition on_setting_changed ::
  "desktop \<Rightarrow> string \<Rightarrow> string \<Rightarrow> int \<Rightarrow> levitation_window \<Rightarrow> levitation_window" where
  "on_setting_changed env first second v s =
     (if first = ''floating_window_management'' then
        (if second = ''floating_window_placement'' then
           rebuild_ui env (s\<lparr>placement := value_or v 0\<rparr>)
         else if second = ''floating_window_display_style'' then
           rebuild_ui env (s\<lparr>display_style := value_or v 0\<rparr>)
         else if second = ''floating_window_stick_to_edge'' then s\<lparr>stick_to_edge := (v \<noteq> 0)\<rparr>
         else if second = ''floating_window_stick_to_edge_recover_seconds'' then
           s\<lparr>retract_seconds := value_or v 0\<rparr>
         else if second = ''floating_window_long_press_duration'' then
           s\<lparr>long_press_ms := value_or v 500\<rparr>
         else if second = ''floating_window_stick_to_edge_display_style'' then
           s\<lparr>stick_indicator_style := value_or v 0\<rparr>
         else if second = ''floating_window_button_control'' then
           (case map_button_control (value_or v 0) of
              Inl e \<Rightarrow> s\<lparr>raised := raised s @ [e]\<rparr>
            | Inr spec \<Rightarrow> rebuild_ui env (s\<lparr>buttons_spec := spec\<rparr>))
         else if second = ''floating_window_draggable'' then s\<lparr>draggable := (v \<noteq> 0)\<rparr>
         else if second = ''flash_window_side_switch'' then
           (let s1 = s\<lparr>floating_window_stick_to_edge := (v \<noteq> 0)\<rparr>
            in if v \<noteq> 0 then s1\<lparr>pending := pending s1 @ [(100, CheckEdgeProximity)]\<rparr>
               else
                 (let s2 = delete_storage_window s1
                  in if retracted s2 then expand_from_edge env s2 else s2))
         else if second = ''custom_retract_time'' then s\<lparr>custom_retract_time := value_or v 5\<rparr>
         else if second = ''custom_display_mode'' then s\<lparr>custom_display_mode := value_or v 1\<rparr>
         else s)
      else if first = ''float_position'' then
        (if second = ''x'' then
           (let p = clamp_to_screen (available_at env (center (geometry s)))
                      (window_width s) (window_height s) (value_or v 0) (window_y s)
            in move (fst p) (snd p) s)
         else if second = ''y'' then
           (let p = clamp_to_screen (available_at env (center (geometry s)))
                      (window_width s) (window_height s) (window_x s) (value_or v 0)
            in move (fst p) (snd p) s)
         else s)
      else s)"

subsection \<open>Construction\<close>

text \<open>
  \<open>readme_settings_async\<close> gives the stored value or \<open>None\<close>; the code reads
  it with \<open>bool(...)\<close> or with \<open>int(... or default)\<close>.
\<close>

definition truthy :: "int option \<Rightarrow> bool" where
  "truthy v = (case v of None \<Rightarrow> False | Some n \<Rightarrow> n \<noteq> 0)"

definition setting_or :: "int option \<Rightarrow> int \<Rightarrow> int" where
  "setting_or v d = (case v of None \<Rightarrow> d | Some n \<Rightarrow> value_or n d)"

text \<open>
  \<open>__init__\<close> with \<open>_init_settings\<close>, \<open>_build_ui\<close> and \<open>_apply_position\<close>. The
  new window is taken to be at the origin before \<open>_apply_position\<close> moves it.
  \<open>_draggable\<close> is \<open>bool(... or True)\<close>, which is \<open>True\<close> for every stored value.
  The timer \<open>_retract_timer\<close> is made single-shot and nothing is connected to it.
\<close>

definition init :: "(string \<Rightarrow> string \<Rightarrow> int option) \<Rightarrow> desktop \<Rightarrow> py_error + levitation_window" where
  "init settings env =
     (let fw = settings ''floating_window_management'';
          idx = setting_or (fw ''floating_window_button_control'') 0
      in case map_button_control idx of
           Inl e \<Rightarrow> Inl e
         | Inr spec \<Rightarrow>
             let pl = setting_or (fw ''floating_window_placement'') 0;
                 ds = setting_or (fw ''floating_window_display_style'') 0;
                 sz = size_hint env pl ds (length spec);
                 s = \<lparr>geometry = \<lparr>rx = 0, ry = 0, rw = fst sz, rh = snd sz\<rparr>,
                      drag_timer = new_timer\<lparr>t_single_shot := True, t_slots := [BeginDrag]\<rparr>,
                      dragging = False,
                      press_pos = (0, 0),
                      indicator = None,
                      retract_timer = new_timer\<lparr>t_single_shot := True\<rparr>,
                      retracted = False,
                      last_stuck = False,
                      edge_threshold = 5,
                      placement = pl,
                      display_style = ds,
                      stick_to_edge = truthy (fw ''floating_window_stick_to_edge''),
                      retract_seconds =
                        setting_or (fw ''floating_window_stick_to_edge_recover_seconds'') 0,
                      long_press_ms = setting_or (fw ''floating_window_long_press_duration'') 500,
                      buttons_spec = spec,
                      draggable = True,
                      stick_indicator_style =
                        setting_or (fw ''floating_window_stick_to_edge_display_style'') 0,
                      floating_window_stick_to_edge = truthy (fw ''floating_window_stick_to_edge''),
                      custom_retract_time =
                        setting_or (fw ''floating_window_stick_to_edge_recover_seconds'') 5,
                      custom_display_mode =
                        setting_or (fw ''floating_window_stick_to_edge_display_style'') 1,
                      original_position = None,
                      animation = None,
                      storage_window = None,
                      storage_dragging = False,
                      storage_drag_start = (0, 0),
                      storage_direction = None,
                      storage_initial_x = 0,
                      arrow_widget = None,
                      arrow_button = None,
                      auto_hide_timer = None,
                      pending = [],
                      settings_written = [],
                      position_changed = [],
                      raised = []\<rparr>;
                 x = setting_or (settings ''float_position'' ''x'') 100;
                 y = setting_or (settings ''float_position'' ''y'') 100;
                 p = clamp_to_screen (available_at env (center (geometry s)))
                       (window_width s) (window_height s) x y
             in Inr (move (fst p) (snd p) s))"

subsection \<open>Timers and animations that end\<close>

definition run_slot :: "desktop \<Rightarrow> slot \<Rightarrow> levitation_window \<Rightarrow> levitation_window" where
  "run_slot env sl s =
     (case sl of
        BeginDrag \<Rightarrow> begin_drag s
      | AutoHideWindow \<Rightarrow> auto_hide_window env s
      | CheckEdgeProximity \<Rightarrow> check_edge_proximity env s)"

text \<open>
  A running timer times out: it stops when it is single-shot, then the slots
  connected to its \<open>timeout\<close> signal run in the order of their connection.
\<close>

definition drag_timer_timeout :: "desktop \<Rightarrow> levitation_window \<Rightarrow> levitation_window" where
  "drag_timer_timeout env s =
     (if t_active (drag_timer s) then
        fold (run_slot env) (t_slots (drag_timer s))
          (s\<lparr>drag_timer := timer_expire (drag_timer s)\<rparr>)
      else s)"

definition retract_timer_timeout :: "desktop \<Rightarrow> levitation_window \<Rightarrow> levitation_window" where
  "retract_timer_timeout env s =
     (if t_active (retract_timer s) then
        fold (run_slot env) (t_slots (retract_timer s))
          (s\<lparr>retract_timer := timer_expire (retract_timer s)\<rparr>)
      else s)"

definition auto_hide_timer_timeout :: "desktop \<Rightarrow> levitation_window \<Rightarrow> levitation_window" where
  "auto_hide_timer_timeout env s =
     (case auto_hide_timer s of
        None \<Rightarrow> s
      | Some t \<Rightarrow>
          if t_active t then
            fold (run_slot env) (t_slots t) (s\<lparr>auto_hide_timer := Some (timer_expire t)\<rparr>)
          else s)"

text \<open>
  One of the pending single-shot calls of a slot comes due (the oldest one for
  this slot).
\<close>

definition single_shot_timeout ::
  "desktop \<Rightarrow> slot \<Rightarrow> levitation_window \<Rightarrow> levitation_window" where
  "single_shot_timeout env sl s =
     (case find (\<lambda>q. snd q = sl) (pending s) of
        None \<Rightarrow> s
      | Some q \<Rightarrow> run_slot env sl (s\<lparr>pending := remove1 q (pending s)\<rparr>))"

text \<open>
  The animation of the attribute \<open>animation\<close> finishes: the window has the end
  value, then the callbacks run.
\<close>

definition animation_finished :: "levitation_window \<Rightarrow> levitation_window" where
  "animation_finished s =
     (case animation s of
        None \<Rightarrow> s
      | Some a \<Rightarrow>
          if a_running a then
            fold run_callback (a_finished a)
              (s\<lparr>geometry := a_end a, animation := Some (a\<lparr>a_running := False\<rparr>)\<rparr>)
          else s)"

subsection \<open>One event, and a sequence of events\<close>

text \<open>
  The handlers of the storage window and of the arrow button exist only while
  these widgets do. Dragging the arrow widget (class \<open>DraggableWidget\<close>, whose
  \<open>_fixed_x\<close> stays 0) moves that widget only.
\<close>

definition step :: "desktop \<Rightarrow> event \<Rightarrow> levitation_window \<Rightarrow> levitation_window" where
  "step env e s =
     (case e of
        MousePress b pos \<Rightarrow> mousePressEvent b pos s
      | MouseMove left_held cur \<Rightarrow> mouseMoveEvent left_held cur s
      | MouseRelease b \<Rightarrow> mouseReleaseEvent env b s
      | FilterPress b pos \<Rightarrow> filter_press b pos s
      | FilterMove left_held cur \<Rightarrow> filter_move left_held cur s
      | FilterRelease b \<Rightarrow> filter_release env b s
      | MouseDoubleClick pos \<Rightarrow> mouseDoubleClickEvent env pos s
      | Enter \<Rightarrow> enterEvent s
      | Leave \<Rightarrow> leaveEvent s
      | DragTimerTimeout \<Rightarrow> drag_timer_timeout env s
      | RetractTimerTimeout \<Rightarrow> retract_timer_timeout env s
      | AutoHideTimerTimeout \<Rightarrow> auto_hide_timer_timeout env s
      | SingleShotTimeout sl \<Rightarrow> single_shot_timeout env sl s
      | AnimationFinished \<Rightarrow> animation_finished s
      | StoragePress b pos \<Rightarrow>
          (if storage_window s = None then s else on_storage_press b pos s)
      | StorageMove left_held pos \<Rightarrow>
          (if storage_window s = None then s else on_storage_move env left_held pos s)
      | StorageRelease b \<Rightarrow>
          (if storage_window s = None then s else on_storage_release env b s)
      | ArrowClicked \<Rightarrow>
          (case arrow_button s of None \<Rightarrow> s | Some d \<Rightarrow> show_hidden_window env d s)
      | ArrowMoved y \<Rightarrow>
          (case arrow_widget s of
             None \<Rightarrow> s
           | Some aw \<Rightarrow> s\<lparr>arrow_widget := Some (aw\<lparr>rx := 0, ry := y\<rparr>)\<rparr>)
      | SettingChanged first second v \<Rightarrow> on_setting_changed env first second v s)"

definition run :: "desktop \<Rightarrow> event list \<Rightarrow> levitation_window \<Rightarrow> levitation_window" where
  "run env es s = fold (step env) es s"

text \<open>The states that a sequence of events passes through, the first one included.\<close>

fun states :: "desktop \<Rightarrow> event list \<Rightarrow> levitation_window \<Rightarrow> levitation_window list" where
  "states env [] s = [s]"
| "states env (e # es) s = s # states env es (step env e s)"

section \<open>What the properties speak about\<close>

subsection \<open>Reachable states\<close>

text \<open>
  The states of the window: the one that \<open>__init__\<close> builds from some stored
  settings, and every state an event leads to from there.
\<close>

inductive reachable :: "desktop \<Rightarrow> levitation_window \<Rightarrow> bool" for env :: desktop where
  reachable_init: "init settings env = Inr s \<Longrightarrow> reachable env s"
| reachable_step: "reachable env s \<Longrightarrow> reachable env (step env e s)"

text \<open>
  What \<open>__init__\<close> fixes for good: the long-press timer is single-shot and
  connected to \<open>_begin_drag\<close>, the retract timer is single-shot and connected to
  nothing, the edge threshold is 5, and a timer in \<open>_auto_hide_timer\<close> is
  single-shot and connected to \<open>_auto_hide_window\<close>.
\<close>

definition wired :: "levitation_window \<Rightarrow> bool" where
  "wired s =
     (t_slots (drag_timer s) = [BeginDrag] \<and> t_single_shot (drag_timer s) \<and>
      t_slots (retract_timer s) = [] \<and> t_single_shot (retract_timer s) \<and>
      edge_threshold s = 5 \<and>
      (case auto_hide_timer s of
         None \<Rightarrow> True
       | Some t \<Rightarrow> t_slots t = [AutoHideWindow] \<and> t_single_shot t))"

subsection \<open>The position store\<close>

text \<open>
  What \<open>_save_position\<close> leaves behind: the values written to the settings and
  the emissions of \<open>positionChanged\<close>.
\<close>

definition position_store ::
  "levitation_window \<Rightarrow> ((string \<times> string) \<times> int) list \<times> (int \<times> int) list" where
  "position_store s = (settings_written s, position_changed s)"

text \<open>
  The proximity check finds the window settled: the hiding is enabled, the window
  is at neither edge of the primary screen, and it is not retracted.
\<close>

definition settled_check :: "desktop \<Rightarrow> levitation_window \<Rightarrow> bool" where
  "settled_check env s =
     (floating_window_stick_to_edge s \<and> 5 < window_x s \<and>
      window_x s + window_width s < rw (available_geometry (primary_screen env)) - 5 \<and>
      \<not> retracted s)"

text \<open>
  The moves that the user has settled: the release that ends a drag, and a
  proximity check (run by a pending single-shot call or by the auto-hide timer)
  that finds the window settled.
\<close>

definition user_settled :: "desktop \<Rightarrow> event \<Rightarrow> levitation_window \<Rightarrow> bool" where
  "user_settled env e s =
     (case e of
        MouseRelease b \<Rightarrow> b = LeftButton \<and> draggable s \<and> dragging s
      | FilterRelease b \<Rightarrow> b = LeftButton \<and> draggable s \<and> dragging s
      | AutoHideTimerTimeout \<Rightarrow>
          (case auto_hide_timer s of None \<Rightarrow> False | Some t \<Rightarrow> t_active t) \<and>
          settled_check env s
      | SingleShotTimeout sl \<Rightarrow>
          sl \<noteq> BeginDrag \<and> find (\<lambda>q. snd q = sl) (pending s) \<noteq> None \<and>
          settled_check env s
      | _ \<Rightarrow> False)"

text \<open>The state after the first two statements of \<open>_check_edge_proximity\<close>.\<close>

definition before_check :: "levitation_window \<Rightarrow> levitation_window" where
  "before_check s = clear_indicator (stop_animation s)"

subsection \<open>A desktop and some windows to try the properties on\<close>

text \<open>
  One screen of 1920 by 1080 pixels with a task bar of 40 pixels at the bottom, a
  window of 150 by 84 pixels, and stored settings with the edge docking switched
  on or off, an indicator style and a stored x coordinate.
\<close>

definition example_desktop :: desktop where
  "example_desktop =
     \<lparr>primary_screen = \<lparr>full_geometry = \<lparr>rx = 0, ry = 0, rw = 1920, rh = 1080\<rparr>,
                        available_geometry = \<lparr>rx = 0, ry = 0, rw = 1920, rh = 1040\<rparr>\<rparr>,
      other_screens = [],
      size_hint = (\<lambda>pl ds n. (150, 84))\<rparr>"

definition example_settings ::
  "int \<Rightarrow> int \<Rightarrow> int \<Rightarrow> string \<Rightarrow> string \<Rightarrow> int option" where
  "example_settings stick style x section key =
     map_of
       [((''floating_window_management'', ''floating_window_stick_to_edge''), stick),
        ((''floating_window_management'', ''floating_window_stick_to_edge_recover_seconds''), 5),
        ((''floating_window_management'', ''floating_window_stick_to_edge_display_style''), style),
        ((''float_position'', ''x''), x),
        ((''float_position'', ''y''), 100)]
       (section, key)"

definition example_window :: "int \<Rightarrow> int \<Rightarrow> int \<Rightarrow> levitation_window" where
  "example_window stick style x = projr (init (example_settings stick style x) example_desktop)"

text \<open>The window in the middle of a drag that has brought it to x = 3.\<close>

definition dragged_example :: levitation_window where
  "dragged_example =
     run example_desktop [MousePress LeftButton (150, 150), MouseMove True (53, 150)]
       (example_window 1 0 100)"

text \<open>The window at x = 3 while the animation that hides it runs.\<close>

definition collapsing_example :: levitation_window where
  "collapsing_example =
     run example_desktop [MouseRelease LeftButton, SingleShotTimeout CheckEdgeProximity]
       (example_window 1 0 3)"

section \<open>Properties of the button specification\<close>

lemma length_combos: "length combos = 16"
  by (simp add: combos_def)

lemma combos_nonempty: "xs \<in> set combos \<Longrightarrow> xs \<noteq> []"
  by (auto simp: combos_def)

lemma map_button_control_returns: "\<exists>ys. map_button_control idx = Inr ys"
  by (simp add: map_button_control_def py_index_def length_combos)

lemma py_index_in_range:
  "0 \<le> i \<Longrightarrow> i < int (length xs) \<Longrightarrow> py_index xs i = Inr (xs ! nat i)"
  by (simp add: py_index_def)

text \<open>
  Claim C8. The table of button combinations has exactly 16 rows, and index 5 is
  mapped to the two buttons roll call, quick draw, in this order.
\<close>

theorem map_button_control_5:
  "length combos = 16 \<and> map_button_control 5 = Inr [''roll_call'', ''quick_draw'']"
  by (simp add: map_button_control_def py_index_def combos_def)

text \<open>
  Claim C10. \<open>_map_button_control\<close> returns for every integer: it never raises,
  its result is never the empty list, and an index below 0 or from 16 on gives
  the row of index 0, the single button roll call.
\<close>

theorem map_button_control_total:
  "(\<exists>ys. map_button_control idx = Inr ys \<and> ys \<noteq> []) \<and>
   (idx < 0 \<or> 16 \<le> idx \<longrightarrow> map_button_control idx = Inr [''roll_call''])"
proof
  have zero: "py_index combos 0 = Inr [''roll_call'']"
    by (simp add: py_index_def combos_def)
  show "\<exists>ys. map_button_control idx = Inr ys \<and> ys \<noteq> []"
  proof (cases "idx < 0 \<or> idx \<ge> int (length combos)")
    case True
    then show ?thesis by (simp add: map_button_control_def zero)
  next
    case False
    then have "map_button_control idx = Inr (combos ! nat idx)"
      by (simp add: map_button_control_def py_index_in_range)
    moreover from False have "combos ! nat idx \<in> set combos"
      by (intro nth_mem) linarith
    ultimately show ?thesis by (simp add: combos_nonempty)
  qed
  show "idx < 0 \<or> 16 \<le> idx \<longrightarrow> map_button_control idx = Inr [''roll_call'']"
    by (simp add: map_button_control_def zero length_combos)
qed

theorem map_button_control_total_witness:
  "((-1::int) < 0 \<or> (16::int) \<le> -1) \<and> map_button_control (-1) = Inr [''roll_call''] \<and>
   ((99::int) < 0 \<or> (16::int) \<le> 99) \<and> map_button_control 99 = Inr [''roll_call''] \<and>
   (\<exists>ys. map_button_control 14 = Inr ys \<and> ys \<noteq> [])"
  using map_button_control_total [of "-1"] map_button_control_total [of 99]
    map_button_control_total [of 14]
  by simp

text \<open>
  Python's \<open>(total + 1) // 2\<close> is half of \<open>total\<close> rounded up, for every integer.
\<close>

lemma ceil_half: "(tot + 1) div 2 = \<lceil>real_of_int tot / 2\<rceil>"
proof -
  have "\<lceil>real_of_int tot / 2\<rceil> = - \<lfloor>real_of_int (- tot) / real_of_int 2\<rfloor>"
    by (simp add: ceiling_def)
  also have "\<dots> = - ((- tot) div 2)"
    by (simp only: floor_divide_of_int_eq)
  also have "\<dots> = (tot + 1) div 2" by presburger
  finally show ?thesis by simp
qed

lemma enumerate_below:
  "map snd (filter (\<lambda>(i, x). int i < k) (enumerate n xs)) = take (nat (k - int n)) xs"
proof (induction xs arbitrary: n)
  case Nil
  then show ?case by simp
next
  case (Cons x xs)
  show ?case
  proof (cases "int n < k")
    case True
    then have "nat (k - int n) = Suc (nat (k - int (Suc n)))" by simp
    with True Cons [of "Suc n"] show ?thesis by simp
  next
    case False
    then have "nat (k - int n) = 0" "nat (k - int (Suc n)) = 0" by simp_all
    with False Cons [of "Suc n"] show ?thesis by simp
  qed
qed

lemma enumerate_not_below:
  "map snd (filter (\<lambda>(i, x). \<not> int i < k) (enumerate n xs)) = drop (nat (k - int n)) xs"
proof (induction xs arbitrary: n)
  case Nil
  then show ?case by simp
next
  case (Cons x xs)
  show ?case
  proof (cases "int n < k")
    case True
    then have "nat (k - int n) = Suc (nat (k - int (Suc n)))" by simp
    with True Cons [of "Suc n"] show ?thesis by simp
  next
    case False
    then have "nat (k - int n) = 0" "nat (k - int (Suc n)) = 0" by simp_all
    with False Cons [of "Suc n"] show ?thesis by simp
  qed
qed

lemma add_button_rows:
  "add_button 0 i t = Top \<longleftrightarrow> i < \<lceil>real_of_int t / 2\<rceil>"
  "add_button 0 i t = Bottom \<longleftrightarrow> \<not> i < \<lceil>real_of_int t / 2\<rceil>"
  by (simp_all add: add_button_def Let_def flip: ceil_half)

lemma buttons_in_top: "buttons_in Top 0 xs = take (nat \<lceil>real (length xs) / 2\<rceil>) xs"
  using enumerate_below [of "\<lceil>real_of_int (int (length xs)) / 2\<rceil>" 0 xs]
  by (simp add: buttons_in_def add_button_rows)

lemma buttons_in_bottom: "buttons_in Bottom 0 xs = drop (nat \<lceil>real (length xs) / 2\<rceil>) xs"
  using enumerate_not_below [of "\<lceil>real_of_int (int (length xs)) / 2\<rceil>" 0 xs]
  by (simp add: buttons_in_def add_button_rows)

text \<open>
  Claim C9. With placement 0 a button goes to the top row exactly when its index
  is below half of the number of buttons, rounded up, and to the bottom row
  otherwise: the top row holds the first \<open>ceil(total/2)\<close> buttons and the bottom
  row the rest. Of three buttons the first two (indices 0 and 1) are in the top
  row and the third one (index 2) is in the bottom row.
\<close>

theorem add_button_split_rows:
  "(add_button 0 index tot = Top \<longleftrightarrow> index < \<lceil>real_of_int tot / 2\<rceil>) \<and>
   (add_button 0 index tot = Bottom \<longleftrightarrow> \<not> index < \<lceil>real_of_int tot / 2\<rceil>) \<and>
   buttons_in Top 0 specs = take (nat \<lceil>real (length specs) / 2\<rceil>) specs \<and>
   buttons_in Bottom 0 specs = drop (nat \<lceil>real (length specs) / 2\<rceil>) specs \<and>
   buttons_in Top 0 [a, b, c] = [a, b] \<and> buttons_in Bottom 0 [a, b, c] = [c]"
proof -
  have three: "nat \<lceil>real (length [a, b, c]) / 2\<rceil> = 2"
    using ceil_half [of 3] by simp
  show ?thesis
    using buttons_in_top [of "[a, b, c]"] buttons_in_bottom [of "[a, b, c]"]
    by (simp add: add_button_rows buttons_in_top [of specs] buttons_in_bottom [of specs] three)
qed

section \<open>Properties of the geometry\<close>

text \<open>
  Claim C3, as amended. When the panel is no wider and no higher than the
  display rectangle \<open>D\<close>, the position that \<open>_clamp_to_screen\<close> returns puts the
  whole panel rectangle inside \<open>D\<close>.
\<close>

theorem clamp_to_screen_inside:
  "w \<le> rw D \<Longrightarrow> h \<le> rh D \<Longrightarrow> panel_inside D w h (clamp_to_screen D w h x y)"
  by (auto simp: panel_inside_def clamp_to_screen_def Let_def
      r_left_def r_right_def r_top_def r_bottom_def)

theorem clamp_to_screen_inside_witness:
  "(120::int) \<le> rw \<lparr>rx = 0, ry = 0, rw = 1920, rh = 1040\<rparr> \<and>
   (72::int) \<le> rh \<lparr>rx = 0, ry = 0, rw = 1920, rh = 1040\<rparr> \<and>
   panel_inside \<lparr>rx = 0, ry = 0, rw = 1920, rh = 1040\<rparr> 120 72
     (clamp_to_screen \<lparr>rx = 0, ry = 0, rw = 1920, rh = 1040\<rparr> 120 72 5000 (-30)) \<and>
   clamp_to_screen \<lparr>rx = 0, ry = 0, rw = 1920, rh = 1040\<rparr> 120 72 5000 (-30) = (1800, 0)"
  using clamp_to_screen_inside [of 120 "\<lparr>rx = 0, ry = 0, rw = 1920, rh = 1040\<rparr>" 72 5000 "-30"]
  by (simp add: clamp_to_screen_def Let_def r_left_def r_right_def r_top_def r_bottom_def)

text \<open>
  The claim as the specification states it, for every display rectangle and
  every panel size, fails for a panel that is wider than the display: on a
  display of 100 by 100 pixels a panel of width 200 is put at the left edge and
  reaches beyond the right edge.
\<close>

theorem clamp_to_screen_counterexample:
  "clamp_to_screen \<lparr>rx = 0, ry = 0, rw = 100, rh = 100\<rparr> 200 50 10 10 = (0, 10) \<and>
   \<not> panel_inside \<lparr>rx = 0, ry = 0, rw = 100, rh = 100\<rparr> 200 50
       (clamp_to_screen \<lparr>rx = 0, ry = 0, rw = 100, rh = 100\<rparr> 200 50 10 10)"
  by (simp add: panel_inside_def clamp_to_screen_def Let_def
      r_left_def r_right_def r_top_def r_bottom_def)

section \<open>Frame properties of the operations\<close>

subsection \<open>The position store\<close>

lemma timer_ops [simp]:
  "t_slots (timer_start m t) = t_slots t" "t_single_shot (timer_start m t) = t_single_shot t"
  "t_slots (timer_stop t) = t_slots t" "t_single_shot (timer_stop t) = t_single_shot t"
  "t_slots (timer_expire t) = t_slots t" "t_single_shot (timer_expire t) = t_single_shot t"
  "t_active (timer_start m t)" "t_interval (timer_start m t) = m"
  "\<not> t_active (timer_stop t)" "t_interval (timer_stop t) = t_interval t"
  by (simp_all add: timer_start_def timer_stop_def timer_expire_def)

lemma store_update [simp]:
  "position_store (geometry_update f1 s) = position_store s"
  "position_store (drag_timer_update f2 s) = position_store s"
  "position_store (dragging_update f3 s) = position_store s"
  "position_store (press_pos_update f4 s) = position_store s"
  "position_store (indicator_update f5 s) = position_store s"
  "position_store (retract_timer_update f6 s) = position_store s"
  "position_store (retracted_update f7 s) = position_store s"
  "position_store (last_stuck_update f8 s) = position_store s"
  "position_store (edge_threshold_update f9 s) = position_store s"
  "position_store (placement_update f10 s) = position_store s"
  "position_store (display_style_update f11 s) = position_store s"
  "position_store (stick_to_edge_update f12 s) = position_store s"
  "position_store (retract_seconds_update f13 s) = position_store s"
  "position_store (long_press_ms_update f14 s) = position_store s"
  "position_store (buttons_spec_update f15 s) = position_store s"
  "position_store (draggable_update f16 s) = position_store s"
  "position_store (stick_indicator_style_update f17 s) = position_store s"
  "position_store (floating_window_stick_to_edge_update f18 s) = position_store s"
  "position_store (custom_retract_time_update f19 s) = position_store s"
  "position_store (custom_display_mode_update f20 s) = position_store s"
  "position_store (original_position_update f21 s) = position_store s"
  "position_store (animation_update f22 s) = position_store s"
  "position_store (storage_window_update f23 s) = position_store s"
  "position_store (storage_dragging_update f24 s) = position_store s"
  "position_store (storage_drag_start_update f25 s) = position_store s"
  "position_store (storage_direction_update f26 s) = position_store s"
  "position_store (storage_initial_x_update f27 s) = position_store s"
  "position_store (arrow_widget_update f28 s) = position_store s"
  "position_store (arrow_button_update f29 s) = position_store s"
  "position_store (auto_hide_timer_update f30 s) = position_store s"
  "position_store (pending_update f31 s) = position_store s"
  "position_store (raised_update f32 s) = position_store s"
  by (simp_all add: position_store_def)

lemma store_basic [simp]:
  "position_store (move x y s) = position_store s"
  "position_store (stop_animation s) = position_store s"
  "position_store (begin_drag s) = position_store s"
  "position_store (cancel_retract s) = position_store s"
  "position_store (schedule_retract s) = position_store s"
  "position_store (clear_indicator s) = position_store s"
  "position_store (show_indicator d s) = position_store s"
  "position_store (delete_storage_window s) = position_store s"
  "position_store (delete_arrow_button s) = position_store s"
  "position_store (create_storage_window d x y s) = position_store s"
  "position_store (create_arrow_button d x y s) = position_store s"
  "position_store (enterEvent s) = position_store s"
  "position_store (leaveEvent s) = position_store s"
  "position_store (schedule_edge_check s) = position_store s"
  "position_store (rebuild_ui env s) = position_store s"
  by (simp_all add: move_def stop_animation_def begin_drag_def cancel_retract_def
      schedule_retract_def clear_indicator_def show_indicator_def delete_storage_window_def
      delete_arrow_button_def create_storage_window_def create_arrow_button_def enterEvent_def
      leaveEvent_def schedule_edge_check_def rebuild_ui_def Let_def split: option.splits)

lemma store_stick [simp]: "position_store (stick_to_nearest_edge env s) = position_store s"
  by (simp add: stick_to_nearest_edge_def Let_def)

lemma store_retract_edge [simp]:
  "position_store (retract_into_edge env s) = position_store s"
  "position_store (expand_from_edge env s) = position_store s"
  by (simp_all add: retract_into_edge_def expand_from_edge_def Let_def)

lemma store_press_move [simp]:
  "position_store (mousePressEvent b pos s) = position_store s"
  "position_store (filter_press b pos s) = position_store s"
  "position_store (pressed_move cur s) = position_store s"
  "position_store (mouseMoveEvent h cur s) = position_store s"
  "position_store (filter_move h cur s) = position_store s"
  by (simp_all add: mousePressEvent_def filter_press_def pressed_move_def mouseMoveEvent_def
      filter_move_def Let_def)

lemma store_callbacks [simp]:
  "position_store (on_animation_finished d x py h s) = position_store s"
  "position_store (on_main_animation_finished s) = position_store s"
  "position_store (on_storage_animation_finished scr w h s) = position_store s"
  by (simp_all add: on_animation_finished_def on_main_animation_finished_def
      on_storage_animation_finished_def Let_def split: sum.splits prod.splits)

lemma store_run_callback [simp]: "position_store (run_callback cb s) = position_store s"
  by (cases cb) (simp_all add: run_callback_def)

lemma store_fold_callbacks [simp]: "position_store (fold run_callback cbs s) = position_store s"
  by (induction cbs arbitrary: s) simp_all

lemma store_expand [simp]:
  "position_store (expand_window env s) = position_store s"
  "position_store (show_hidden_window env d s) = position_store s"
  "position_store (smart_snap_to_edge env s) = position_store s"
  "position_store (on_storage_press b pos s) = position_store s"
  "position_store (on_storage_move env h pos s) = position_store s"
  by (simp_all add: expand_window_def show_hidden_window_def smart_snap_to_edge_def
      on_storage_press_def on_storage_move_def Let_def split: option.splits)

lemma store_storage_release [simp]:
  "position_store (on_storage_release env b s) = position_store s"
  "position_store (mouseDoubleClickEvent env pos s) = position_store s"
  by (simp_all add: on_storage_release_def mouseDoubleClickEvent_def Let_def split: option.splits)

lemma store_animation_finished [simp]:
  "position_store (animation_finished s) = position_store s"
  by (simp add: animation_finished_def split: option.splits)

lemma store_setting [simp]:
  "position_store (on_setting_changed env first second v s) = position_store s"
  by (simp add: on_setting_changed_def Let_def split: sum.splits)


subsection \<open>The wiring of the timers\<close>

lemma wired_update [simp]:
  "wired (geometry_update f1 s) = wired s"
  "wired (dragging_update f2 s) = wired s"
  "wired (press_pos_update f3 s) = wired s"
  "wired (indicator_update f4 s) = wired s"
  "wired (retracted_update f5 s) = wired s"
  "wired (last_stuck_update f6 s) = wired s"
  "wired (placement_update f7 s) = wired s"
  "wired (display_style_update f8 s) = wired s"
  "wired (stick_to_edge_update f9 s) = wired s"
  "wired (retract_seconds_update f10 s) = wired s"
  "wired (long_press_ms_update f11 s) = wired s"
  "wired (buttons_spec_update f12 s) = wired s"
  "wired (draggable_update f13 s) = wired s"
  "wired (stick_indicator_style_update f14 s) = wired s"
  "wired (floating_window_stick_to_edge_update f15 s) = wired s"
  "wired (custom_retract_time_update f16 s) = wired s"
  "wired (custom_display_mode_update f17 s) = wired s"
  "wired (original_position_update f18 s) = wired s"
  "wired (animation_update f19 s) = wired s"
  "wired (storage_window_update f20 s) = wired s"
  "wired (storage_dragging_update f21 s) = wired s"
  "wired (storage_drag_start_update f22 s) = wired s"
  "wired (storage_direction_update f23 s) = wired s"
  "wired (storage_initial_x_update f24 s) = wired s"
  "wired (arrow_widget_update f25 s) = wired s"
  "wired (arrow_button_update f26 s) = wired s"
  "wired (pending_update f27 s) = wired s"
  "wired (settings_written_update f28 s) = wired s"
  "wired (position_changed_update f29 s) = wired s"
  "wired (raised_update f30 s) = wired s"
  by (simp_all add: wired_def)

lemma wired_drag_timer [simp]:
  "t_slots t = t_slots (drag_timer s) \<Longrightarrow> t_single_shot t = t_single_shot (drag_timer s) \<Longrightarrow>
   wired (s\<lparr>drag_timer := t\<rparr>) = wired s"
  by (simp add: wired_def)

lemma wired_retract_timer [simp]:
  "t_slots t = t_slots (retract_timer s) \<Longrightarrow> t_single_shot t = t_single_shot (retract_timer s) \<Longrightarrow>
   wired (s\<lparr>retract_timer := t\<rparr>) = wired s"
  by (simp add: wired_def)

lemma wired_auto_hide_none [simp]: "wired s \<Longrightarrow> wired (s\<lparr>auto_hide_timer := None\<rparr>)"
  by (simp add: wired_def)

lemma wired_auto_hide_fresh [simp]:
  "wired s \<Longrightarrow> wired (s\<lparr>auto_hide_timer := Some (fresh_auto_hide_timer s')\<rparr>)"
  by (simp add: wired_def fresh_auto_hide_timer_def new_timer_def)

lemma wired_auto_hide_keep [simp]:
  "wired s \<Longrightarrow> auto_hide_timer s = Some t \<Longrightarrow> t_slots t' = t_slots t \<Longrightarrow>
   t_single_shot t' = t_single_shot t \<Longrightarrow> wired (s\<lparr>auto_hide_timer := Some t'\<rparr>)"
  by (simp add: wired_def)

lemma wired_basic [simp]:
  "wired (move x y s) = wired s"
  "wired (stop_animation s) = wired s"
  "wired (begin_drag s) = wired s"
  "wired (cancel_retract s) = wired s"
  "wired (schedule_retract s) = wired s"
  "wired (clear_indicator s) = wired s"
  "wired (show_indicator d s) = wired s"
  "wired (save_position s) = wired s"
  "wired (delete_storage_window s) = wired s"
  "wired (delete_arrow_button s) = wired s"
  "wired (create_storage_window d x y s) = wired s"
  "wired (create_arrow_button d x y s) = wired s"
  "wired (schedule_edge_check s) = wired s"
  "wired (rebuild_ui env s) = wired s"
  by (simp_all add: move_def stop_animation_def begin_drag_def cancel_retract_def
      schedule_retract_def clear_indicator_def show_indicator_def save_position_def
      delete_storage_window_def delete_arrow_button_def create_storage_window_def
      create_arrow_button_def schedule_edge_check_def rebuild_ui_def Let_def
      split: option.splits)

lemma wired_enter_leave [simp]:
  "wired s \<Longrightarrow> wired (enterEvent s)"
  "wired s \<Longrightarrow> wired (leaveEvent s)"
  by (simp_all add: enterEvent_def leaveEvent_def Let_def split: option.splits)

lemma wired_stick [simp]:
  "wired (stick_to_nearest_edge env s) = wired s"
  "wired (retract_into_edge env s) = wired s"
  "wired (expand_from_edge env s) = wired s"
  by (simp_all add: stick_to_nearest_edge_def retract_into_edge_def expand_from_edge_def Let_def)

lemma wired_press_move [simp]:
  "wired (mousePressEvent b pos s) = wired s"
  "wired (filter_press b pos s) = wired s"
  "wired (pressed_move cur s) = wired s"
  "wired (mouseMoveEvent h cur s) = wired s"
  "wired (filter_move h cur s) = wired s"
  "wired (drag_release env s) = wired s"
  by (simp_all add: mousePressEvent_def filter_press_def pressed_move_def mouseMoveEvent_def
      filter_move_def drag_release_def Let_def)

lemma wired_release [simp]:
  "wired (mouseReleaseEvent env b s) = wired s"
  "wired (filter_release env b s) = wired s"
  by (simp_all add: mouseReleaseEvent_def filter_release_def Let_def)

lemma wired_check [simp]: "wired (check_edge_proximity env s) = wired s"
  by (simp add: check_edge_proximity_def Let_def)

lemma wired_auto_hide_window [simp]: "wired s \<Longrightarrow> wired (auto_hide_window env s)"
  by (simp add: auto_hide_window_def Let_def split: option.splits)

lemma wired_run_slot [simp]: "wired s \<Longrightarrow> wired (run_slot env sl s)"
  by (cases sl) (simp_all add: run_slot_def)

lemma wired_callbacks [simp]:
  "wired (on_animation_finished d x py h s) = wired s"
  "wired s \<Longrightarrow> wired (on_main_animation_finished s)"
  "wired (on_storage_animation_finished scr w h s) = wired s"
  by (simp_all add: on_animation_finished_def on_main_animation_finished_def
      on_storage_animation_finished_def Let_def split: sum.splits prod.splits)

lemma wired_run_callback [simp]: "wired s \<Longrightarrow> wired (run_callback cb s)"
  by (cases cb) (simp_all add: run_callback_def)

lemma wired_fold_callbacks [simp]: "wired s \<Longrightarrow> wired (fold run_callback cbs s)"
  by (induction cbs arbitrary: s) simp_all

lemma wired_expand [simp]:
  "wired (expand_window env s) = wired s"
  "wired (show_hidden_window env d s) = wired s"
  "wired (smart_snap_to_edge env s) = wired s"
  "wired (on_storage_press b pos s) = wired s"
  "wired (on_storage_move env h pos s) = wired s"
  by (simp_all add: expand_window_def show_hidden_window_def smart_snap_to_edge_def
      on_storage_press_def on_storage_move_def Let_def split: option.splits)

lemma wired_storage_release [simp]:
  "wired (on_storage_release env b s) = wired s"
  "wired (mouseDoubleClickEvent env pos s) = wired s"
  by (simp_all add: on_storage_release_def mouseDoubleClickEvent_def Let_def split: option.splits)

lemma wired_setting [simp]: "wired (on_setting_changed env first second v s) = wired s"
  by (simp add: on_setting_changed_def Let_def split: sum.splits)

lemma wired_fold_slots [simp]: "wired s \<Longrightarrow> wired (fold (run_slot env) sls s)"
  by (induction sls arbitrary: s) simp_all

lemma wired_drag_timer_timeout [simp]: "wired s \<Longrightarrow> wired (drag_timer_timeout env s)"
  by (simp add: drag_timer_timeout_def)

lemma wired_retract_timer_timeout [simp]: "wired s \<Longrightarrow> wired (retract_timer_timeout env s)"
  by (simp add: retract_timer_timeout_def)

lemma wired_auto_hide_timer_timeout [simp]: "wired s \<Longrightarrow> wired (auto_hide_timer_timeout env s)"
  by (simp add: auto_hide_timer_timeout_def split: option.splits)

lemma wired_single_shot_timeout [simp]: "wired s \<Longrightarrow> wired (single_shot_timeout env sl s)"
  by (simp add: single_shot_timeout_def split: option.splits)

lemma wired_animation_finished [simp]: "wired s \<Longrightarrow> wired (animation_finished s)"
  by (simp add: animation_finished_def split: option.splits)

lemma wired_step: "wired s \<Longrightarrow> wired (step env e s)"
  by (cases e) (simp_all add: step_def split: option.splits)

lemma wired_init: "init settings env = Inr s \<Longrightarrow> wired s"
  by (auto simp: init_def Let_def wired_def move_def new_timer_def split: sum.splits)

lemma reachable_wired: "reachable env s \<Longrightarrow> wired s"
  by (induction rule: reachable.induct) (simp_all add: wired_init wired_step)


subsection \<open>Who writes the position\<close>

lemma save_position_store:
  "position_store (save_position s) =
     (fst (position_store s) @
        [((''float_position'', ''x''), window_x s), ((''float_position'', ''y''), window_y s)],
      snd (position_store s) @ [(window_x s, window_y s)])"
  by (simp add: save_position_def position_store_def)

lemma save_position_changes: "position_store s' = position_store s \<Longrightarrow> position_store (save_position s') \<noteq> position_store s"
  by (simp add: save_position_store prod_eq_iff)

lemma store_drag_release: "position_store (drag_release env s) \<noteq> position_store s"
  by (simp add: drag_release_def Let_def save_position_changes)

lemma store_mouse_release:
  "(position_store (mouseReleaseEvent env b s) \<noteq> position_store s) =
     (b = LeftButton \<and> draggable s \<and> dragging s)"
  using store_drag_release [of env "s\<lparr>drag_timer := timer_stop (drag_timer s)\<rparr>"]
  by (simp add: mouseReleaseEvent_def Let_def)

lemma store_filter_release:
  "(position_store (filter_release env b s) \<noteq> position_store s) =
     (b = LeftButton \<and> draggable s \<and> dragging s)"
  using store_drag_release [of env "s\<lparr>drag_timer := timer_stop (drag_timer s)\<rparr>"]
  by (simp add: filter_release_def Let_def)

lemma settled_check_frame [simp]:
  "settled_check env (stop_animation s) = settled_check env s"
  "settled_check env (clear_indicator s) = settled_check env s"
  "settled_check env (s\<lparr>auto_hide_timer := t\<rparr>) = settled_check env s"
  "settled_check env (s\<lparr>pending := p\<rparr>) = settled_check env s"
  by (simp_all add: settled_check_def stop_animation_def clear_indicator_def window_x_def
      window_width_def split: option.splits)

lemma store_check:
  "(position_store (check_edge_proximity env s) \<noteq> position_store s) = settled_check env s"
proof -
  let ?s2 = "clear_indicator (stop_animation s)"
  have frame: "floating_window_stick_to_edge ?s2 = floating_window_stick_to_edge s"
    "window_x ?s2 = window_x s" "window_width ?s2 = window_width s" "retracted ?s2 = retracted s"
    by (simp_all add: stop_animation_def clear_indicator_def window_x_def window_width_def
        split: option.splits)
  have st: "position_store ?s2 = position_store s" by simp
  show ?thesis
    using save_position_changes [OF st]
    by (simp add: check_edge_proximity_def Let_def frame settled_check_def)
qed

lemma store_auto_hide_window:
  "(position_store (auto_hide_window env s) \<noteq> position_store s) = settled_check env s"
proof (cases "floating_window_stick_to_edge s")
  case False
  then show ?thesis by (simp add: auto_hide_window_def settled_check_def)
next
  case True
  then show ?thesis
    using store_check [of env s]
      store_check [of env "s\<lparr>auto_hide_timer := Some (timer_stop (the (auto_hide_timer s)))\<rparr>"]
    by (auto simp add: auto_hide_window_def Let_def split: option.splits)
qed

lemma store_run_slot:
  "(position_store (run_slot env sl s) \<noteq> position_store s) = (sl \<noteq> BeginDrag \<and> settled_check env s)"
  by (cases sl) (simp_all add: run_slot_def store_check store_auto_hide_window)

lemma store_single_shot:
  "(position_store (single_shot_timeout env sl s) \<noteq> position_store s) =
     (sl \<noteq> BeginDrag \<and> find (\<lambda>q. snd q = sl) (pending s) \<noteq> None \<and> settled_check env s)"
proof (cases "find (\<lambda>q. snd q = sl) (pending s)")
  case None
  then show ?thesis by (simp add: single_shot_timeout_def)
next
  case (Some q)
  then show ?thesis
    using store_run_slot [of env sl "s\<lparr>pending := remove1 q (pending s)\<rparr>"]
    by (simp add: single_shot_timeout_def)
qed

lemma store_drag_timer: "wired s \<Longrightarrow> position_store (drag_timer_timeout env s) = position_store s"
  by (simp add: drag_timer_timeout_def wired_def run_slot_def)

lemma store_retract_timer: "wired s \<Longrightarrow> position_store (retract_timer_timeout env s) = position_store s"
  by (simp add: retract_timer_timeout_def wired_def)

lemma store_auto_hide_timer:
  assumes "wired s"
  shows "(position_store (auto_hide_timer_timeout env s) \<noteq> position_store s) =
     ((case auto_hide_timer s of None \<Rightarrow> False | Some t \<Rightarrow> t_active t) \<and> settled_check env s)"
proof (cases "auto_hide_timer s")
  case None
  then show ?thesis by (simp add: auto_hide_timer_timeout_def)
next
  case (Some t)
  with assms have "t_slots t = [AutoHideWindow]" by (simp add: wired_def)
  with Some show ?thesis
    using store_auto_hide_window [of env "s\<lparr>auto_hide_timer := Some (timer_expire t)\<rparr>"]
    by (simp add: auto_hide_timer_timeout_def run_slot_def)
qed

lemma store_step:
  assumes "wired s"
  shows "(position_store (step env e s) \<noteq> position_store s) = user_settled env e s"
  using assms
  by (cases e)
    (simp_all add: step_def user_settled_def store_mouse_release store_filter_release
      store_single_shot store_drag_timer store_retract_timer store_auto_hide_timer
      split: option.splits)



section \<open>Reachable states and the examples\<close>

lemma init_returns: "\<exists>s. init settings env = Inr s"
proof -
  obtain ys where "map_button_control
      (setting_or (settings ''floating_window_management'' ''floating_window_button_control'') 0) =
      Inr ys"
    using map_button_control_returns by blast
  then show ?thesis by (simp add: init_def Let_def)
qed

lemma example_window_init:
  "init (example_settings stick style x) example_desktop = Inr (example_window stick style x)"
proof -
  obtain s where s: "init (example_settings stick style x) example_desktop = Inr s"
    using init_returns by blast
  have "example_window stick style x = s"
    by (simp only: example_window_def s sum.sel)
  with s show ?thesis by (simp only:)
qed

lemma reachable_run: "reachable env s \<Longrightarrow> reachable env (run env es s)"
proof (induction es arbitrary: s)
  case Nil
  then show ?case by (simp add: run_def)
next
  case (Cons e es)
  from Cons.prems have "reachable env (step env e s)" by (rule reachable_step)
  then have "reachable env (run env es (step env e s))" by (rule Cons.IH)
  then show ?case by (simp add: run_def)
qed

lemma reachable_example_window: "reachable example_desktop (example_window stick style x)"
  using example_window_init by (rule reachable_init)

lemma reachable_dragged_example: "reachable example_desktop dragged_example"
  unfolding dragged_example_def using reachable_example_window by (rule reachable_run)

lemma reachable_collapsing_example: "reachable example_desktop collapsing_example"
  unfolding collapsing_example_def using reachable_example_window by (rule reachable_run)

section \<open>Docking at an edge when a drag ends\<close>

lemma geometry_frame [simp]:
  "geometry (schedule_retract s) = geometry s"
  "geometry (clear_indicator s) = geometry s"
  "geometry (show_indicator d s) = geometry s"
  "geometry (save_position s) = geometry s"
  "geometry (schedule_edge_check s) = geometry s"
  by (simp_all add: schedule_retract_def clear_indicator_def show_indicator_def save_position_def
      schedule_edge_check_def Let_def split: option.splits)

lemma last_stuck_frame [simp]:
  "last_stuck (schedule_retract s) = last_stuck s"
  "last_stuck (clear_indicator s) = last_stuck s"
  "last_stuck (show_indicator d s) = last_stuck s"
  "last_stuck (save_position s) = last_stuck s"
  "last_stuck (schedule_edge_check s) = last_stuck s"
  "last_stuck (move x y s) = last_stuck s"
  by (simp_all add: schedule_retract_def clear_indicator_def show_indicator_def save_position_def
      schedule_edge_check_def move_def Let_def split: option.splits)

lemma stick_geometry:
  assumes "stick_to_edge s"
  shows "geometry (stick_to_nearest_edge env s) =
     (let geo = available_at env (center (geometry s))
      in if r_left (geometry s) - r_left geo \<le> edge_threshold s then
           (geometry s)\<lparr>rx := r_left geo\<rparr>
         else if r_right geo - r_right (geometry s) \<le> edge_threshold s then
           (geometry s)\<lparr>rx := r_right geo - rw (geometry s) + 1\<rparr>
         else geometry s)"
  using assms
  by (simp add: stick_to_nearest_edge_def Let_def move_def window_y_def window_width_def)

lemma stick_last_stuck:
  assumes "stick_to_edge s"
  shows "last_stuck (stick_to_nearest_edge env s) =
     (let geo = available_at env (center (geometry s))
      in r_left (geometry s) - r_left geo \<le> edge_threshold s \<or>
         r_right geo - r_right (geometry s) \<le> edge_threshold s)"
  using assms
  by (simp add: stick_to_nearest_edge_def Let_def)

lemma drag_release_geometry [simp]:
  "geometry (drag_release env s) = geometry (stick_to_nearest_edge env (s\<lparr>dragging := False\<rparr>))"
  "last_stuck (drag_release env s) =
     last_stuck (stick_to_nearest_edge env (s\<lparr>dragging := False\<rparr>))"
  by (simp_all add: drag_release_def Let_def)

lemma release_geometry:
  assumes "draggable s" "dragging s"
  shows "geometry (mouseReleaseEvent env LeftButton s) =
           geometry (stick_to_nearest_edge env
             (s\<lparr>drag_timer := timer_stop (drag_timer s), dragging := False\<rparr>))"
    and "last_stuck (mouseReleaseEvent env LeftButton s) =
           last_stuck (stick_to_nearest_edge env
             (s\<lparr>drag_timer := timer_stop (drag_timer s), dragging := False\<rparr>))"
    and "geometry (filter_release env LeftButton s) =
           geometry (stick_to_nearest_edge env
             (s\<lparr>drag_timer := timer_stop (drag_timer s), dragging := False\<rparr>))"
  using assms by (simp_all add: mouseReleaseEvent_def filter_release_def Let_def)

text \<open>
  Claim C4. When a drag ends (the left button is released while the window is
  being dragged) and sticking to the edge is enabled, the window is moved flush to
  the left edge of the display when its left gap is at most 5, else flush to the
  right edge (x = right - width + 1) when its right gap is at most 5, and else
  it stays where it is; \<open>eventFilter\<close> does the same as \<open>mouseReleaseEvent\<close>. A
  window whose left edge is 3 pixels from the left edge of the display docks
  left.
\<close>

theorem dock_on_drag_release:
  assumes "reachable env s" "stick_to_edge s" "draggable s" "dragging s"
  shows "let displayRect = available_at env (center (geometry s));
             panelRect = geometry s;
             leftGap = r_left panelRect - r_left displayRect;
             rightGap = r_right displayRect - r_right panelRect;
             released = mouseReleaseEvent env LeftButton s
         in geometry released =
              (if leftGap \<le> 5 then panelRect\<lparr>rx := r_left displayRect\<rparr>
               else if rightGap \<le> 5 then
                 panelRect\<lparr>rx := r_right displayRect - rw panelRect + 1\<rparr>
               else panelRect) \<and>
            last_stuck released = (leftGap \<le> 5 \<or> rightGap \<le> 5) \<and>
            geometry (filter_release env LeftButton s) = geometry released \<and>
            (leftGap = 3 \<longrightarrow>
               r_left (geometry released) = r_left displayRect \<and> last_stuck released)"
proof -
  let ?s = "s\<lparr>drag_timer := timer_stop (drag_timer s), dragging := False\<rparr>"
  from assms(1) have "wired s" by (rule reachable_wired)
  then have thr: "edge_threshold s = 5" by (simp add: wired_def)
  have s: "stick_to_edge ?s" "geometry ?s = geometry s" "edge_threshold ?s = 5"
    using assms(2) thr by simp_all
  show ?thesis
    using assms(3,4)
    by (simp add: release_geometry stick_geometry [OF s(1)] stick_last_stuck [OF s(1)] s(2,3)
        Let_def r_left_def)
qed

theorem dock_on_drag_release_witness:
  "reachable example_desktop dragged_example \<and> stick_to_edge dragged_example \<and>
   draggable dragged_example \<and> dragging dragged_example \<and>
   geometry dragged_example = \<lparr>rx = 3, ry = 100, rw = 150, rh = 84\<rparr> \<and>
   available_at example_desktop (center (geometry dragged_example)) =
     \<lparr>rx = 0, ry = 0, rw = 1920, rh = 1040\<rparr> \<and>
   geometry (mouseReleaseEvent example_desktop LeftButton dragged_example) =
     \<lparr>rx = 0, ry = 100, rw = 150, rh = 84\<rparr> \<and>
   last_stuck (mouseReleaseEvent example_desktop LeftButton dragged_example)"
proof -
  have a: "stick_to_edge dragged_example" by code_simp
  have b: "draggable dragged_example" by code_simp
  have c: "dragging dragged_example" by code_simp
  have g: "geometry dragged_example = \<lparr>rx = 3, ry = 100, rw = 150, rh = 84\<rparr>" by code_simp
  have d: "available_at example_desktop (center \<lparr>rx = 3, ry = 100, rw = 150, rh = 84\<rparr>) =
     \<lparr>rx = 0, ry = 0, rw = 1920, rh = 1040\<rparr>" by code_simp
  show ?thesis
    using dock_on_drag_release [OF reachable_dragged_example a b c] reachable_dragged_example
      a b c
    by (simp add: Let_def d g r_left_def r_right_def)
qed

section \<open>Click or drag\<close>

lemma small_move:
  assumes "\<not> dragging s" "\<bar>fst q - fst (press_pos s)\<bar> < 3" "\<bar>snd q - snd (press_pos s)\<bar> < 3"
  shows "mouseMoveEvent left_held q s = s" and "filter_move left_held q s = s"
  using assms by (simp_all add: mouseMoveEvent_def filter_move_def pressed_move_def Let_def)

lemma states_idle:
  assumes "\<forall>e \<in> set es1. step env e s = s"
  shows "states env (es1 @ es2) s = replicate (length es1) s @ states env es2 s"
  using assms by (induction es1) simp_all

lemma run_idle:
  assumes "step env e s = s"
  shows "run env (replicate n e) s = s"
  using assms by (induction n) (simp_all add: run_def)

lemma press_state:
  assumes "draggable s"
  shows "\<not> dragging (mousePressEvent LeftButton p s)"
    and "press_pos (mousePressEvent LeftButton p s) = p"
    and "drag_timer (mousePressEvent LeftButton p s) =
           timer_start (long_press_ms s) (timer_stop (drag_timer s))"
    and "filter_press LeftButton p s = mousePressEvent LeftButton p s"
  using assms by (simp_all add: mousePressEvent_def filter_press_def)

lemma release_not_dragging:
  assumes "\<not> dragging s"
  shows "\<not> dragging (mouseReleaseEvent env b s)" and "\<not> dragging (filter_release env b s)"
  using assms
  by (simp_all add: mouseReleaseEvent_def filter_release_def schedule_edge_check_def Let_def)

text \<open>
  Claim C5. A press of the left button on a draggable window, followed by moves
  that all stay less than 3 pixels from the place of the press in both
  directions, and by the release, with no timeout of the long-press timer in
  between, never sets the dragging state; this holds for the events of the window
  itself and for those that \<open>eventFilter\<close> sees on its children. After a press
  and any number of moves to the place of the press itself the long-press timer
  runs with the long-press duration as its interval, and its timeout sets the
  dragging state.
\<close>

theorem click_or_drag:
  assumes "reachable env s" "draggable s"
  shows "((\<forall>q \<in> set qs. \<bar>fst q - fst p\<bar> < 3 \<and> \<bar>snd q - snd p\<bar> < 3) \<longrightarrow>
            (\<forall>s' \<in> set (tl (states env
               (MousePress LeftButton p # map (MouseMove True) qs @ [MouseRelease LeftButton]) s)).
               \<not> dragging s') \<and>
            (\<forall>s' \<in> set (tl (states env
               (FilterPress LeftButton p # map (FilterMove True) qs @ [FilterRelease LeftButton])
               s)). \<not> dragging s')) \<and>
         (let held = run env (MousePress LeftButton p # replicate n (MouseMove True p)) s
          in \<not> dragging held \<and> t_active (drag_timer held) \<and>
             t_interval (drag_timer held) = long_press_ms s \<and>
             dragging (step env DragTimerTimeout held) \<and>
             run env (FilterPress LeftButton p # replicate n (FilterMove True p)) s = held)"
proof -
  let ?s1 = "mousePressEvent LeftButton p s"
  note ps = press_state [OF assms(2), of p]
  from assms(1) have "wired s" by (rule reachable_wired)
  then have slots: "t_slots (drag_timer s) = [BeginDrag]" by (simp add: wired_def)
  have still: "step env (MouseMove True q) ?s1 = ?s1" "step env (FilterMove True q) ?s1 = ?s1"
    if "\<bar>fst q - fst p\<bar> < 3 \<and> \<bar>snd q - snd p\<bar> < 3" for q
    using that ps(1,2) by (simp_all add: step_def small_move)
  have released: "\<not> dragging (mouseReleaseEvent env LeftButton ?s1)"
    "\<not> dragging (filter_release env LeftButton ?s1)"
    using ps(1) by (rule release_not_dragging)+
  have first: "\<forall>s' \<in> set (tl (states env
         (MousePress LeftButton p # map (MouseMove True) qs @ [MouseRelease LeftButton]) s)).
         \<not> dragging s'"
    if near: "\<forall>q \<in> set qs. \<bar>fst q - fst p\<bar> < 3 \<and> \<bar>snd q - snd p\<bar> < 3"
  proof -
    have "states env (map (MouseMove True) qs @ [MouseRelease LeftButton]) ?s1 =
            replicate (length (map (MouseMove True) qs)) ?s1 @
            states env [MouseRelease LeftButton] ?s1"
      using near still(1) by (intro states_idle) auto
    then have "set (tl (states env
         (MousePress LeftButton p # map (MouseMove True) qs @ [MouseRelease LeftButton]) s))
        \<subseteq> {?s1, mouseReleaseEvent env LeftButton ?s1}"
      by (auto simp: step_def)
    with released(1) ps(1) show ?thesis by auto
  qed
  have second: "\<forall>s' \<in> set (tl (states env
         (FilterPress LeftButton p # map (FilterMove True) qs @ [FilterRelease LeftButton]) s)).
         \<not> dragging s'"
    if near: "\<forall>q \<in> set qs. \<bar>fst q - fst p\<bar> < 3 \<and> \<bar>snd q - snd p\<bar> < 3"
  proof -
    have "states env (map (FilterMove True) qs @ [FilterRelease LeftButton]) ?s1 =
            replicate (length (map (FilterMove True) qs)) ?s1 @
            states env [FilterRelease LeftButton] ?s1"
      using near still(2) by (intro states_idle) auto
    then have "set (tl (states env
         (FilterPress LeftButton p # map (FilterMove True) qs @ [FilterRelease LeftButton]) s))
        \<subseteq> {?s1, filter_release env LeftButton ?s1}"
      by (auto simp: step_def ps(4))
    with released(2) ps(1) show ?thesis by auto
  qed
  have held: "run env (MousePress LeftButton p # replicate n (MouseMove True p)) s = ?s1"
    "run env (FilterPress LeftButton p # replicate n (FilterMove True p)) s = ?s1"
    using run_idle [OF still(1) [of p], of n] run_idle [OF still(2) [of p], of n]
    by (simp_all add: run_def step_def [of env "MousePress LeftButton p"]
        step_def [of env "FilterPress LeftButton p"] ps(4))
  have fire: "dragging (step env DragTimerTimeout ?s1)"
    using slots
    by (simp add: step_def drag_timer_timeout_def ps(3) timer_start_def timer_stop_def
        timer_expire_def run_slot_def begin_drag_def)
  show ?thesis
    using first second ps(1,3)
    by (simp add: held fire Let_def timer_start_def)
qed

theorem click_or_drag_witness:
  "reachable example_desktop (example_window 1 0 100) \<and> draggable (example_window 1 0 100) \<and>
   list_all (\<lambda>s'. \<not> dragging s')
     (tl (states example_desktop
        [MousePress LeftButton (150, 150), MouseMove True (151, 152), MouseMove True (148, 149),
         MouseRelease LeftButton] (example_window 1 0 100))) \<and>
   dragging (run example_desktop
     [MousePress LeftButton (150, 150), MouseMove True (150, 150), DragTimerTimeout]
     (example_window 1 0 100))"
proof -
  have d: "draggable (example_window 1 0 100)" by code_simp
  have near: "\<forall>q \<in> set [(151, 152), (148, 149)].
      \<bar>fst q - fst (150, 150)\<bar> < (3::int) \<and> \<bar>snd q - snd (150, 150)\<bar> < (3::int)"
    by simp
  from click_or_drag [OF reachable_example_window d, of "[(151, 152), (148, 149)]" "(150, 150)" 1]
    near
  have "(\<forall>s' \<in> set (tl (states example_desktop
           (MousePress LeftButton (150, 150) # map (MouseMove True) [(151, 152), (148, 149)] @
            [MouseRelease LeftButton]) (example_window 1 0 100))). \<not> dragging s')"
    and "dragging (step example_desktop DragTimerTimeout
           (run example_desktop (MousePress LeftButton (150, 150) #
              replicate 1 (MouseMove True (150, 150))) (example_window 1 0 100)))"
    by (simp_all add: Let_def)
  then show ?thesis
    using reachable_example_window [of 1 0 100] d
    by (simp add: list_all_iff run_def)
qed

section \<open>Writing the position\<close>

text \<open>
  Claim C6. In every reachable state an event writes the position to the
  settings and emits \<open>positionChanged\<close> exactly when it is a move the user has
  settled: the release that ends a drag, or a proximity check that finds the
  window away from both edges and not retracted. The animation that hides the
  window and the ways back from an indicator never write: the end of an animation
  of the window, \<open>_expand_window\<close> and its closure
  \<open>on_storage_animation_finished\<close>, \<open>_show_hidden_window\<close>, and the proximity
  check of a window at an edge leave the written values and the emitted signals
  as they are.
\<close>

theorem position_written_only_when_settled:
  assumes "reachable env s"
  shows "(position_store (step env e s) \<noteq> position_store s) = user_settled env e s \<and>
         position_store (animation_finished s) = position_store s \<and>
         position_store (on_storage_animation_finished scr w h s) = position_store s \<and>
         position_store (expand_window env s) = position_store s \<and>
         position_store (show_hidden_window env d s) = position_store s \<and>
         (window_x s \<le> 5 \<or>
          rw (available_geometry (primary_screen env)) - 5 \<le> window_x s + window_width s \<longrightarrow>
            position_store (check_edge_proximity env s) = position_store s)"
proof -
  from assms have "wired s" by (rule reachable_wired)
  then have "(position_store (step env e s) \<noteq> position_store s) = user_settled env e s"
    by (rule store_step)
  moreover have "position_store (check_edge_proximity env s) = position_store s"
    if "window_x s \<le> 5 \<or>
        rw (available_geometry (primary_screen env)) - 5 \<le> window_x s + window_width s"
    using that store_check [of env s] by (auto simp: settled_check_def)
  ultimately show ?thesis by simp
qed

theorem position_written_only_when_settled_witness:
  "reachable example_desktop dragged_example \<and>
   user_settled example_desktop (MouseRelease LeftButton) dragged_example \<and>
   position_store (step example_desktop (MouseRelease LeftButton) dragged_example) \<noteq>
     position_store dragged_example \<and>
   reachable example_desktop collapsing_example \<and> window_x collapsing_example \<le> 5 \<and>
   position_store (step example_desktop AnimationFinished collapsing_example) =
     position_store collapsing_example \<and>
   position_store (check_edge_proximity example_desktop collapsing_example) =
     position_store collapsing_example"
proof -
  have a: "user_settled example_desktop (MouseRelease LeftButton) dragged_example" by code_simp
  have b: "\<not> user_settled example_desktop AnimationFinished collapsing_example" by code_simp
  have c: "window_x collapsing_example \<le> 5" by code_simp
  show ?thesis
    using position_written_only_when_settled
        [OF reachable_dragged_example, of "MouseRelease LeftButton"]
      position_written_only_when_settled [OF reachable_collapsing_example, of AnimationFinished]
      reachable_dragged_example reachable_collapsing_example a b c
    by simp
qed

section \<open>Hiding at the edge and coming back\<close>

lemma before_check_fields [simp]:
  "geometry (before_check s) = geometry s"
  "stick_indicator_style (before_check s) = stick_indicator_style s"
  "floating_window_stick_to_edge (before_check s) = floating_window_stick_to_edge s"
  "original_position (before_check s) = original_position s"
  "retracted (before_check s) = retracted s"
  "indicator (before_check s) = None"
  by (simp_all add: before_check_def clear_indicator_def stop_animation_def split: option.splits)

lemma check_unfold:
  "check_edge_proximity env s =
     (let s2 = before_check s
      in if \<not> floating_window_stick_to_edge s2 then s2
         else
           let screen = available_geometry (primary_screen env);
               window_pos = (window_x s2, window_y s2);
               width = window_width s2;
               height = window_height s2;
               edge = 5;
               hidden_width = 10
           in if fst window_pos \<le> edge then
                (let s3 = (if original_position s2 = None then
                             s2\<lparr>original_position := Some window_pos\<rparr>
                           else s2)
                 in s3\<lparr>animation := Some
                      \<lparr>a_start = geometry s3,
                       a_end = \<lparr>rx = - width + hidden_width, ry = snd window_pos,
                                rw = width, rh = height\<rparr>,
                       a_running = True,
                       a_finished = [OnAnimationFinished DirRight 0 (snd window_pos) height]\<rparr>\<rparr>)
              else if fst window_pos + width \<ge> rw screen - edge then
                (let s3 = (if original_position s2 = None then
                             s2\<lparr>original_position := Some window_pos\<rparr>
                           else s2)
                 in s3\<lparr>animation := Some
                      \<lparr>a_start = geometry s3,
                       a_end = \<lparr>rx = rw screen - hidden_width, ry = snd window_pos,
                                rw = width, rh = height\<rparr>,
                       a_running = True,
                       a_finished =
                         [OnAnimationFinished DirLeft (rw screen - 30) (snd window_pos) height]\<rparr>\<rparr>)
              else
                (let s3 = (if fst window_pos > edge \<and> fst window_pos + width < rw screen - edge
                           then
                             (let s4 = (if \<not> retracted s2 then save_position s2 else s2)
                              in s4\<lparr>original_position := None\<rparr>)
                           else s2)
                 in s3\<lparr>retracted := False\<rparr>))"
  by (simp only: check_edge_proximity_def before_check_def Let_def)

lemma collapse_starts:
  assumes "floating_window_stick_to_edge s"
    and "window_x s \<le> 5 \<or>
         rw (available_geometry (primary_screen env)) - 5 \<le> window_x s + window_width s"
  shows "animation (check_edge_proximity env s) = Some
           \<lparr>a_start = geometry s,
            a_end = \<lparr>rx = (if window_x s \<le> 5 then - window_width s + 10
                           else rw (available_geometry (primary_screen env)) - 10),
                     ry = window_y s, rw = window_width s, rh = window_height s\<rparr>,
            a_running = True,
            a_finished =
              [OnAnimationFinished (if window_x s \<le> 5 then DirRight else DirLeft)
                 (if window_x s \<le> 5 then 0 else rw (available_geometry (primary_screen env)) - 30)
                 (window_y s) (window_height s)]\<rparr> \<and>
         geometry (check_edge_proximity env s) = geometry s \<and>
         stick_indicator_style (check_edge_proximity env s) = stick_indicator_style s"
  using assms
  by (auto simp add: check_unfold Let_def window_x_def window_y_def window_width_def
      window_height_def)

lemma collapse_finishes:
  assumes "animation s = Some a" "a_running a" "a_finished a = [OnAnimationFinished d ix py h]"
  shows "geometry (animation_finished s) = a_end a \<and>
         retracted (animation_finished s) \<and>
         original_position (animation_finished s) = original_position s \<and>
         (if stick_indicator_style s = 0 then
            storage_window (animation_finished s) =
              Some \<lparr>rx = ix, ry = py + h div 2 - 30, rw = 30, rh = 30\<rparr> \<and>
            \<not> storage_dragging (animation_finished s)
          else
            arrow_widget (animation_finished s) =
              Some \<lparr>rx = ix, ry = py + h div 2 - 15, rw = 30, rh = 30\<rparr> \<and>
            arrow_button (animation_finished s) = Some d)"
  using assms
  by (simp add: animation_finished_def run_callback_def on_animation_finished_def
      create_storage_window_def delete_storage_window_def create_arrow_button_def
      delete_arrow_button_def Let_def split: option.splits)

lemma arrow_click:
  assumes "arrow_button s = Some d" "arrow_widget s = Some aw"
  shows "animation (step env ArrowClicked s) = Some
           \<lparr>a_start = geometry s,
            a_end =
              (let screen = available_geometry (primary_screen env);
                   y0 = ry aw + rh aw div 2 - window_height s div 2;
                   y1 = (if y0 < r_top screen then r_top screen
                         else if y0 + window_height s > r_bottom screen then
                           r_bottom screen - window_height s
                         else y0)
               in \<lparr>rx = (case d of DirRight \<Rightarrow> r_left screen
                                   | DirLeft \<Rightarrow> r_right screen - window_width s + 1),
                   ry = y1, rw = window_width s, rh = window_height s\<rparr>),
            a_running = True, a_finished = []\<rparr> \<and>
         arrow_widget (step env ArrowClicked s) = None"
  using assms
  by (cases d)
    (simp_all add: step_def show_hidden_window_def stop_animation_def delete_arrow_button_def
      Let_def window_width_def window_height_def window_y_def split: option.splits)

lemma plain_animation_finishes:
  assumes "animation s = Some a" "a_running a" "a_finished a = []"
  shows "geometry (animation_finished s) = a_end a"
  using assms by (simp add: animation_finished_def)

text \<open>
  Claim C2, as amended. Let the proximity check hide a window at an edge of the
  primary screen, with the arrow button as the indicator. A click on the arrow
  does not bring the window back to the geometry it had when the check began: it
  moves the window to a position computed anew, flush with the left edge of the
  screen (or with the right edge, x = right - width + 1), at the height of the
  arrow, which is the height the window had unless that lies outside the screen.
\<close>

theorem expand_after_collapse:
  assumes "floating_window_stick_to_edge s" "stick_indicator_style s \<noteq> 0"
    and "window_x s \<le> 5 \<or>
         rw (available_geometry (primary_screen env)) - 5 \<le> window_x s + window_width s"
  shows "let screen = available_geometry (primary_screen env);
             collapsed = step env AnimationFinished (check_edge_proximity env s)
         in retracted collapsed \<and> arrow_button collapsed \<noteq> None \<and>
            geometry (run env [ArrowClicked, AnimationFinished] collapsed) =
              \<lparr>rx = (if window_x s \<le> 5 then r_left screen
                     else r_right screen - window_width s + 1),
               ry = (if window_y s < r_top screen then r_top screen
                     else if window_y s + window_height s > r_bottom screen then
                       r_bottom screen - window_height s
                     else window_y s),
               rw = window_width s, rh = window_height s\<rparr>"
proof -
  let ?screen = "available_geometry (primary_screen env)"
  let ?s1 = "check_edge_proximity env s"
  let ?s2 = "animation_finished ?s1"
  let ?d = "if window_x s \<le> 5 then DirRight else DirLeft"
  let ?ix = "if window_x s \<le> 5 then 0 else rw ?screen - 30"
  let ?a = "\<lparr>a_start = geometry s,
            a_end = \<lparr>rx = (if window_x s \<le> 5 then - window_width s + 10 else rw ?screen - 10),
                     ry = window_y s, rw = window_width s, rh = window_height s\<rparr>,
            a_running = True,
            a_finished = [OnAnimationFinished ?d ?ix (window_y s) (window_height s)]\<rparr>"
  let ?aw = "\<lparr>rx = ?ix, ry = window_y s + window_height s div 2 - 15, rw = 30, rh = 30\<rparr>"
  let ?s3 = "step env ArrowClicked ?s2"
  let ?e = "\<lparr>rx = (if window_x s \<le> 5 then r_left ?screen
                  else r_right ?screen - window_width s + 1),
            ry = (if window_y s < r_top ?screen then r_top ?screen
                  else if window_y s + window_height s > r_bottom ?screen then
                    r_bottom ?screen - window_height s
                  else window_y s),
            rw = window_width s, rh = window_height s\<rparr>"
  note c1 = collapse_starts [OF assms(1,3)]
  from c1 have a1: "animation ?s1 = Some ?a" by simp
  have c2: "geometry ?s2 = a_end ?a \<and> retracted ?s2 \<and>
         original_position ?s2 = original_position ?s1 \<and>
         (if stick_indicator_style ?s1 = 0 then
            storage_window ?s2 =
              Some \<lparr>rx = ?ix, ry = window_y s + window_height s div 2 - 30, rw = 30, rh = 30\<rparr> \<and>
            \<not> storage_dragging ?s2
          else
            arrow_widget ?s2 =
              Some \<lparr>rx = ?ix, ry = window_y s + window_height s div 2 - 15, rw = 30, rh = 30\<rparr> \<and>
            arrow_button ?s2 = Some ?d)"
    by (rule collapse_finishes [OF a1]) simp_all
  have size2: "window_width ?s2 = window_width s" "window_height ?s2 = window_height s"
    using c2 by (simp_all add: window_width_def window_height_def)
  have collapsed: "step env AnimationFinished ?s1 = ?s2" by (simp add: step_def)
  from assms(2) c1 c2 have aw: "arrow_button ?s2 = Some ?d" "arrow_widget ?s2 = Some ?aw"
    by simp_all
  note c3 = arrow_click [OF aw, of env]
  from c3 size2 have a3: "animation ?s3 = Some
      \<lparr>a_start = geometry ?s2, a_end = ?e, a_running = True, a_finished = []\<rparr>"
    by (simp add: Let_def)
  have "geometry (animation_finished ?s3) = ?e"
    using plain_animation_finishes [OF a3] by simp
  moreover have "run env [ArrowClicked, AnimationFinished] ?s2 = animation_finished ?s3"
    by (simp add: run_def step_def [of env AnimationFinished])
  ultimately show ?thesis
    using aw c2 by (simp add: Let_def collapsed)
qed

theorem expand_after_collapse_witness:
  "floating_window_stick_to_edge (example_window 1 1 3) \<and>
   stick_indicator_style (example_window 1 1 3) = 1 \<and>
   window_x (example_window 1 1 3) \<le> 5 \<and>
   geometry (example_window 1 1 3) = \<lparr>rx = 3, ry = 100, rw = 150, rh = 84\<rparr> \<and>
   arrow_button (step example_desktop AnimationFinished
     (check_edge_proximity example_desktop (example_window 1 1 3))) \<noteq> None \<and>
   geometry (run example_desktop [ArrowClicked, AnimationFinished]
     (step example_desktop AnimationFinished
        (check_edge_proximity example_desktop (example_window 1 1 3)))) =
     \<lparr>rx = 0, ry = 100, rw = 150, rh = 84\<rparr>"
proof -
  let ?w = "example_window 1 1 3"
  have a: "floating_window_stick_to_edge ?w" by code_simp
  have b: "stick_indicator_style ?w = 1" by code_simp
  have d: "window_x ?w \<le> 5" by code_simp
  have g: "geometry ?w = \<lparr>rx = 3, ry = 100, rw = 150, rh = 84\<rparr>" by code_simp
  have near: "window_x ?w \<le> 5 \<or>
      rw (available_geometry (primary_screen example_desktop)) - 5 \<le> window_x ?w + window_width ?w"
    using d by simp
  have nz: "stick_indicator_style ?w \<noteq> 0" using b by simp
  show ?thesis
    using expand_after_collapse [OF a nz near] a b d
    by (simp add: Let_def g window_x_def window_y_def window_width_def window_height_def
        example_desktop_def r_left_def r_top_def r_right_def r_bottom_def)
qed

text \<open>
  The claim as the specification states it, for both indicators, fails for the
  arrow button: a window at (3, 100) that the proximity check has hidden comes
  back at (0, 100) after a click on the arrow.
\<close>

theorem expand_after_collapse_counterexample:
  "let w0 = example_window 1 1 3;
       collapsed = run example_desktop
         [MouseRelease LeftButton, SingleShotTimeout CheckEdgeProximity, AnimationFinished] w0;
       expanded = run example_desktop [ArrowClicked, AnimationFinished] collapsed
   in (window_x w0, window_y w0) = (3, 100) \<and> retracted collapsed \<and>
      arrow_button collapsed = Some DirRight \<and> window_x collapsed = - 140 \<and>
      (window_x expanded, window_y expanded) = (0, 100) \<and>
      geometry expanded \<noteq> geometry w0"
  by code_simp

text \<open>
  With the storage window as the indicator nothing brings the window back. A
  click on the storage window runs \<open>_expand_window\<close>, whose exit animation does
  not outlive the call, so the closure that would animate the window to the
  original position never runs: the window stays hidden, the storage window
  stays on the screen, and neither an animation nor a timer is left to change
  that. The same holds for the right button and for a double click.
\<close>

lemma expand_window_moves_nothing:
  "geometry (expand_window env s) = geometry s"
  "retracted (expand_window env s) = retracted s"
  "storage_window (expand_window env s) = storage_window s"
  "original_position (expand_window env s) = original_position s"
  "pending (expand_window env s) = pending s"
  "auto_hide_timer (expand_window env s) = auto_hide_timer s"
  "animation (expand_window env s) = Some a \<Longrightarrow> storage_window s \<noteq> None \<Longrightarrow> \<not> a_running a"
  by (auto simp add: expand_window_def stop_animation_def split: option.splits if_splits)

lemma storage_release_moves_nothing:
  "geometry (on_storage_release env b s) = geometry s"
  "retracted (on_storage_release env b s) = retracted s"
  "storage_window (on_storage_release env b s) = storage_window s"
  "original_position (on_storage_release env b s) = original_position s"
  "pending (on_storage_release env b s) = pending s"
  by (simp_all add: on_storage_release_def smart_snap_to_edge_def expand_window_moves_nothing
      Let_def split: option.splits)

lemma storage_click_leaves_window_hidden:
  "let w0 = example_window 1 0 3;
       collapsed = run example_desktop
         [MouseRelease LeftButton, SingleShotTimeout CheckEdgeProximity, AnimationFinished] w0;
       clicked = step example_desktop (StorageRelease LeftButton) collapsed
   in (window_x w0, window_y w0) = (3, 100) \<and> retracted collapsed \<and>
      storage_window collapsed = Some \<lparr>rx = 0, ry = 112, rw = 30, rh = 30\<rparr> \<and>
      original_position collapsed = Some (3, 100) \<and> window_x collapsed = - 140 \<and>
      window_x clicked = - 140 \<and> retracted clicked \<and>
      storage_window clicked = storage_window collapsed \<and>
      pending clicked = [] \<and> auto_hide_timer clicked = None \<and>
      map_option a_running (animation clicked) = Some False \<and>
      step example_desktop AnimationFinished clicked = clicked"
  by code_simp

section \<open>The retract timer\<close>

lemma schedule_retract_arms:
  assumes "wired s" "stick_to_edge s" "0 < retract_seconds s"
  shows "t_active (retract_timer (schedule_retract s)) \<and>
         t_interval (retract_timer (schedule_retract s)) = retract_seconds s * 1000 \<and>
         t_single_shot (retract_timer (schedule_retract s)) \<and>
         t_slots (retract_timer (schedule_retract s)) = []"
  using assms by (simp add: schedule_retract_def wired_def)

lemma cancelled_retract_never_fires:
  "\<not> t_active (retract_timer (cancel_retract s)) \<and>
   retract_timer_timeout env (cancel_retract s) = cancel_retract s"
  by (simp add: retract_timer_timeout_def cancel_retract_def)

lemma retract_timeout_runs_nothing:
  assumes "wired s"
  shows "retract_timer_timeout env s =
     (if t_active (retract_timer s) then s\<lparr>retract_timer := timer_stop (retract_timer s)\<rparr>
      else s)"
  using assms by (simp add: retract_timer_timeout_def wired_def timer_expire_def)

text \<open>
  Claim C1. The retract timer is single-shot, \<open>_schedule_retract\<close> starts it for
  the retract seconds, and \<open>_cancel_retract\<close> stops it. Its timeout, however,
  does not retract the window: \<open>__init__\<close> connects no slot to it, and
  \<open>_retract_into_edge\<close> is called from nowhere. With the settings of the example
  (hiding at the edge off, 5 retract seconds), sticking to the edge is switched
  on, the window is dragged to the left edge and docks there; the retract timer
  then runs for 5000 ms, and when it times out the window is where it was, not
  retracted, with no indicator window, no animation and nothing pending.
\<close>

theorem retract_timer_expiry_does_not_collapse:
  "let w0 = example_window 0 0 100;
       docked = run example_desktop
         [SettingChanged ''floating_window_management'' ''floating_window_stick_to_edge'' 1,
          MousePress LeftButton (150, 150), MouseMove True (55, 150), MouseRelease LeftButton] w0;
       expired = step example_desktop RetractTimerTimeout docked
   in stick_to_edge docked \<and> retract_seconds docked = 5 \<and> last_stuck docked \<and>
      window_x docked = 0 \<and>
      t_active (retract_timer docked) \<and> t_interval (retract_timer docked) = 5000 \<and>
      t_single_shot (retract_timer docked) \<and> t_slots (retract_timer docked) = [] \<and>
      \<not> t_active (retract_timer expired) \<and> \<not> retracted expired \<and>
      geometry expired = geometry docked \<and> storage_window expired = None \<and>
      arrow_widget expired = None \<and> animation expired = None \<and> pending expired = []"
  by code_simp

section \<open>The two kinds of indicator\<close>

lemma no_indicator_shown_while_hiding_enabled:
  assumes "floating_window_stick_to_edge s"
  shows "indicator (stick_to_nearest_edge env s) = indicator s"
    and "indicator (retract_into_edge env s) = indicator s"
  using assms
  by (simp_all add: stick_to_nearest_edge_def retract_into_edge_def move_def Let_def)

lemma check_clears_indicator: "indicator (check_edge_proximity env s) = None"
  by (simp add: check_unfold Let_def save_position_def)

text \<open>
  Claim C7. While hiding at the edge is enabled no operation shows the older
  indicator, and the proximity check removes it. The two kinds of indicator can
  still be there together: switching the hiding off deletes the storage window
  but not the arrow button. With the arrow style, the window at x = 3 is hidden
  and the arrow button appears; the hiding is switched off, which leaves the
  arrow button; the window is dragged and released 3 pixels from the left edge,
  which docks it and shows the older indicator beside the arrow button; and
  after the hiding is switched on again both are there while it is enabled.
\<close>

theorem legacy_indicator_beside_arrow_button:
  "let w0 = example_window 1 1 3;
       hidden = run example_desktop
         [MouseRelease LeftButton, SingleShotTimeout CheckEdgeProximity, AnimationFinished] w0;
       switched_off = step example_desktop
         (SettingChanged ''floating_window_management'' ''flash_window_side_switch'' 0) hidden;
       docked = run example_desktop
         [MousePress LeftButton (50, 130), MouseMove True (53, 130), MouseRelease LeftButton]
         switched_off;
       switched_on = step example_desktop
         (SettingChanged ''floating_window_management'' ''flash_window_side_switch'' 1) docked
   in floating_window_stick_to_edge hidden \<and> arrow_button hidden = Some DirRight \<and>
      indicator hidden = None \<and>
      \<not> floating_window_stick_to_edge switched_off \<and> arrow_widget switched_off \<noteq> None \<and>
      \<not> floating_window_stick_to_edge docked \<and> indicator docked \<noteq> None \<and>
      arrow_widget docked \<noteq> None \<and> arrow_button docked = Some DirRight \<and>
      floating_window_stick_to_edge switched_on \<and> indicator switched_on \<noteq> None \<and>
      arrow_widget switched_on \<noteq> None"
  by code_simp

end
